theory Spec2Isabelle
  imports Main "HOL-Library.Word" "HOL-Library.Signed_Division" "HOL-Library.Monad_Syntax"
begin

unbundle bit_operations_syntax

section \<open>The integral template parameter\<close>

text \<open>
  \<open>bsl::safe_integral<T>\<close> is instantiated with the fixed-width integers of
  \<open>cstdint.hpp\<close>.  A value of \<open>T\<close> is an \<open>'a word\<close> (\<open>LENGTH('a)\<close> bits) and the
  compile-time constant \<open>is_signed<T>::value\<close> is the boolean \<open>sg\<close> that the
  functions depending on it take as their argument: \<open>value_of sg x\<close> is the number
  that the bit pattern \<open>x\<close> stands for.
\<close>

definition value_of :: "bool \<Rightarrow> 'a::len word \<Rightarrow> int" where
  "value_of sg x = (if sg then sint x else uint x)"

text \<open>
  Modelled from the spec: \<open>numeric_limits<T>::min()\<close> and \<open>numeric_limits<T>::max()\<close>
  (\<open>numeric_limits.hpp\<close> is not among the sources) are the "native representable
  bounds" of \<open>T\<close>: two's complement for a signed \<open>T\<close>, \<open>0\<close> and all ones for an
  unsigned one.
\<close>

definition numeric_limits_min :: "bool \<Rightarrow> 'a::len word" where
  "numeric_limits_min sg = (if sg then word_of_int (- (2 ^ (LENGTH('a) - 1))) else 0)"

definition numeric_limits_max :: "bool \<Rightarrow> 'a::len word" where
  "numeric_limits_max sg = (if sg then word_of_int (2 ^ (LENGTH('a) - 1) - 1) else - 1)"

text \<open>The comparisons of the language on two values of \<open>T\<close>.\<close>

definition native_less :: "bool \<Rightarrow> 'a::len word \<Rightarrow> 'a word \<Rightarrow> bool" where
  "native_less sg x y = (value_of sg x < value_of sg y)"

definition native_less_eq :: "bool \<Rightarrow> 'a::len word \<Rightarrow> 'a word \<Rightarrow> bool" where
  "native_less_eq sg x y = (value_of sg x \<le> value_of sg y)"

definition native_greater :: "bool \<Rightarrow> 'a::len word \<Rightarrow> 'a word \<Rightarrow> bool" where
  "native_greater sg x y = (value_of sg x > value_of sg y)"

definition native_greater_eq :: "bool \<Rightarrow> 'a::len word \<Rightarrow> 'a word \<Rightarrow> bool" where
  "native_greater_eq sg x y = (value_of sg x \<ge> value_of sg y)"

subsection \<open>Arithmetic of the language\<close>

text \<open>
  The operators \<open>+ - * / %\<close> of the language on two values of \<open>T\<close>, where the
  source applies them unchecked.  The operands are promoted (a \<open>T\<close> narrower
  than \<open>int\<close>, taken as 32 bits wide, becomes an \<open>int\<close>), the operation is
  done in the promoted type, and the result is converted back to \<open>T\<close> modulo
  \<open>2 ^ LENGTH('a)\<close>.  A signed operation whose result the promoted type cannot hold
  is undefined, as is a division by zero: these are \<open>None\<close>.  \<open>r\<close> is the
  exact result.
\<close>

definition int_bits :: nat where
  "int_bits = 32"

definition native_arith :: "bool \<Rightarrow> int \<Rightarrow> 'a::len word option" where
  "native_arith sg r =
     (if LENGTH('a) < int_bits then
        (if - (2 ^ (int_bits - 1)) \<le> r \<and> r < 2 ^ (int_bits - 1)
         then Some (word_of_int r) else None)
      else if sg then
        (if - (2 ^ (LENGTH('a) - 1)) \<le> r \<and> r < 2 ^ (LENGTH('a) - 1)
         then Some (word_of_int r) else None)
      else Some (word_of_int r))"

definition native_add :: "bool \<Rightarrow> 'a::len word \<Rightarrow> 'a word \<Rightarrow> 'a word option" where
  "native_add sg x y = native_arith sg (value_of sg x + value_of sg y)"

definition native_sub :: "bool \<Rightarrow> 'a::len word \<Rightarrow> 'a word \<Rightarrow> 'a word option" where
  "native_sub sg x y = native_arith sg (value_of sg x - value_of sg y)"

definition native_mul :: "bool \<Rightarrow> 'a::len word \<Rightarrow> 'a word \<Rightarrow> 'a word option" where
  "native_mul sg x y = native_arith sg (value_of sg x * value_of sg y)"

text \<open>Division truncates towards zero; the remainder has the sign of the dividend.\<close>

definition native_div :: "bool \<Rightarrow> 'a::len word \<Rightarrow> 'a word \<Rightarrow> 'a word option" where
  "native_div sg x y =
     (if y = 0 then None else native_arith sg (value_of sg x sdiv value_of sg y))"

definition native_mod :: "bool \<Rightarrow> 'a::len word \<Rightarrow> 'a word \<Rightarrow> 'a word option" where
  "native_mod sg x y =
     (case native_div sg x y of
        None \<Rightarrow> None
      | Some q \<Rightarrow> Some (word_of_int (value_of sg x smod value_of sg y)))"

text \<open>
  The shifts of an unsigned \<open>T\<close> by \<open>bits\<close> (the value of the unsigned count): a
  count that reaches the width of the promoted operand is undefined, and so is
  a left shift of a promoted \<open>int\<close> whose result the unsigned \<open>int\<close> cannot hold.
\<close>

definition native_shl :: "'a::len word \<Rightarrow> nat \<Rightarrow> 'a word option" where
  "native_shl x bits =
     (if max LENGTH('a) int_bits \<le> bits then None
      else if LENGTH('a) < int_bits \<and> 2 ^ int_bits \<le> uint x * 2 ^ bits then None
      else Some (push_bit bits x))"

definition native_shr :: "'a::len word \<Rightarrow> nat \<Rightarrow> 'a word option" where
  "native_shr x bits =
     (if max LENGTH('a) int_bits \<le> bits then None else Some (drop_bit bits x))"

section \<open>Overflow detection\<close>

text \<open>
  \<open>integral_overflow_underflow_wrap_error()\<close> returns \<open>true\<close>, and it is not
  \<open>constexpr\<close>: a constant evaluation that reaches the call has no value (the
  compiler rejects it, which is how the error is shown at compile time).  \<open>ce\<close>
  says that the call is part of a constant evaluation.
\<close>

definition integral_overflow_underflow_wrap_error :: "bool \<Rightarrow> bool option" where
  "integral_overflow_underflow_wrap_error ce = (if ce then None else Some True)"

text \<open>
  Modelled from the spec: the intrinsics \<open>__builtin_add_overflow\<close>,
  \<open>__builtin_sub_overflow\<close> and \<open>__builtin_mul_overflow\<close> belong to the compiler.
  The spec has them "perform operation, report whether it overflowed": the exact
  result \<open>r\<close> is stored converted to \<open>T\<close>, and the answer is whether the stored
  value differs from \<open>r\<close>.
\<close>

definition intrinsic_overflow :: "bool \<Rightarrow> int \<Rightarrow> 'a::len word \<times> bool" where
  "intrinsic_overflow sg r = (let res = word_of_int r in (res, value_of sg res \<noteq> r))"

definition intrinsic_add_overflow :: "bool \<Rightarrow> 'a::len word \<Rightarrow> 'a word \<Rightarrow> 'a word \<times> bool" where
  "intrinsic_add_overflow sg lhs rhs = intrinsic_overflow sg (value_of sg lhs + value_of sg rhs)"

definition intrinsic_sub_overflow :: "bool \<Rightarrow> 'a::len word \<Rightarrow> 'a word \<Rightarrow> 'a word \<times> bool" where
  "intrinsic_sub_overflow sg lhs rhs = intrinsic_overflow sg (value_of sg lhs - value_of sg rhs)"

definition intrinsic_mul_overflow :: "bool \<Rightarrow> 'a::len word \<Rightarrow> 'a word \<Rightarrow> 'a word \<times> bool" where
  "intrinsic_mul_overflow sg lhs rhs = intrinsic_overflow sg (value_of sg lhs * value_of sg rhs)"

text \<open>
  Modelled from the spec: the macro \<open>BSL_PERFORCE\<close> is not defined in the
  sources.  The spec describes addition, subtraction and multiplication as the
  fused operation that poisons when "detection fires", and has \<open>127 + 0\<close> not
  poisoned: that is the build in which the macro is false.
\<close>

definition BSL_PERFORCE :: bool where
  "BSL_PERFORCE = False"

text \<open>
  \<open>bsl::builtin_add_overflow(lhs, rhs, res)\<close> and its siblings return the value
  written to \<open>*res\<close> with the flag.  \<open>ce\<close> is what \<open>is_constant_evaluated()\<close>
  answers at the call: true in a constant evaluation, false at run time.
\<close>

definition builtin_add_overflow ::
  "bool \<Rightarrow> bool \<Rightarrow> 'a::len word \<Rightarrow> 'a word \<Rightarrow> ('a word \<times> bool) option" where
  "builtin_add_overflow ce sg lhs rhs =
     (if BSL_PERFORCE then
        do { res \<leftarrow> native_add sg lhs rhs; Some (res, True) }
      else if ce then
        (case intrinsic_add_overflow sg lhs rhs of
           (res, ovf) \<Rightarrow>
             if ovf then do { _ \<leftarrow> integral_overflow_underflow_wrap_error ce; Some (res, True) }
             else Some (res, False))
      else Some (intrinsic_add_overflow sg lhs rhs))"

definition builtin_sub_overflow ::
  "bool \<Rightarrow> bool \<Rightarrow> 'a::len word \<Rightarrow> 'a word \<Rightarrow> ('a word \<times> bool) option" where
  "builtin_sub_overflow ce sg lhs rhs =
     (if BSL_PERFORCE then
        do { res \<leftarrow> native_sub sg lhs rhs; Some (res, True) }
      else if ce then
        (case intrinsic_sub_overflow sg lhs rhs of
           (res, ovf) \<Rightarrow>
             if ovf then do { _ \<leftarrow> integral_overflow_underflow_wrap_error ce; Some (res, True) }
             else Some (res, False))
      else Some (intrinsic_sub_overflow sg lhs rhs))"

definition builtin_mul_overflow ::
  "bool \<Rightarrow> bool \<Rightarrow> 'a::len word \<Rightarrow> 'a word \<Rightarrow> ('a word \<times> bool) option" where
  "builtin_mul_overflow ce sg lhs rhs =
     (if BSL_PERFORCE then
        do { res \<leftarrow> native_mul sg lhs rhs; Some (res, True) }
      else if ce then
        (case intrinsic_mul_overflow sg lhs rhs of
           (res, ovf) \<Rightarrow>
             if ovf then do { _ \<leftarrow> integral_overflow_underflow_wrap_error ce; Some (res, True) }
             else Some (res, False))
      else Some (intrinsic_mul_overflow sg lhs rhs))"

section \<open>The class \<open>safe_integral\<close>\<close>

text \<open>The two data members; the template parameter \<open>T\<close> is the type \<open>'t\<close>.\<close>

record 't safe_integral =
  m_val :: 't
  m_error :: bool


text \<open>The constructors from a \<open>T\<close>, and from a \<open>T\<close> with the error flag.\<close>

definition safe_integral_T :: "'t \<Rightarrow> 't safe_integral" where
  "safe_integral_T val = \<lparr>m_val = val, m_error = False\<rparr>"

definition safe_integral_T_err :: "'t \<Rightarrow> bool \<Rightarrow> 't safe_integral" where
  "safe_integral_T_err val err = \<lparr>m_val = val, m_error = err\<rparr>"

text \<open>\<open>operator=(U const val)\<close>, on the object \<open>this\<close>.\<close>

definition assign_T :: "'t safe_integral \<Rightarrow> 't \<Rightarrow> 't safe_integral" where
  "assign_T this val = (let this1 = this\<lparr>m_val := val\<rparr> in this1\<lparr>m_error := False\<rparr>)"

definition get :: "'a::len word safe_integral \<Rightarrow> 'a word" where
  "get this = (if m_error this then 0 else m_val this)"

definition operator_bool :: "'t safe_integral \<Rightarrow> bool" where
  "operator_bool this = (\<not> m_error this)"

definition failure :: "'t safe_integral \<Rightarrow> bool" where
  "failure this = m_error this"

definition set_failure :: "'t safe_integral \<Rightarrow> 't safe_integral" where
  "set_failure this = this\<lparr>m_error := True\<rparr>"

definition max_si :: "bool \<Rightarrow> 'a::len word" where
  "max_si sg = numeric_limits_max sg"

definition min_si :: "bool \<Rightarrow> 'a::len word" where
  "min_si sg = numeric_limits_min sg"

definition one_si :: "bool \<Rightarrow> 'a::len word safe_integral" where
  "one_si err = safe_integral_T_err 1 err"

definition zero_si :: "bool \<Rightarrow> 'a::len word safe_integral" where
  "zero_si err = safe_integral_T_err 0 err"

definition is_signed_type :: "bool \<Rightarrow> bool" where
  "is_signed_type sg = sg"

definition is_unsigned_type :: "bool \<Rightarrow> bool" where
  "is_unsigned_type sg = (\<not> sg)"

subsection \<open>The relational operators\<close>

text \<open>
  Each operator has three overloads: two \<open>safe_integral\<close>s, a \<open>safe_integral\<close>
  and a \<open>T\<close> (suffix \<open>sT\<close>), a \<open>T\<close> and a \<open>safe_integral\<close> (suffix \<open>Ts\<close>).
\<close>

definition op_eq :: "'a::len word safe_integral \<Rightarrow> 'a word safe_integral \<Rightarrow> bool" where
  "op_eq lhs rhs = (get lhs = get rhs \<and> \<not> failure lhs \<and> \<not> failure rhs)"

definition op_eq_sT :: "'a::len word safe_integral \<Rightarrow> 'a word \<Rightarrow> bool" where
  "op_eq_sT lhs rhs = (get lhs = rhs \<and> \<not> failure lhs)"

definition op_eq_Ts :: "'a::len word \<Rightarrow> 'a word safe_integral \<Rightarrow> bool" where
  "op_eq_Ts lhs rhs = (lhs = get rhs \<and> \<not> failure rhs)"

definition op_ne :: "'a::len word safe_integral \<Rightarrow> 'a word safe_integral \<Rightarrow> bool" where
  "op_ne lhs rhs = (\<not> op_eq lhs rhs)"

definition op_ne_sT :: "'a::len word safe_integral \<Rightarrow> 'a word \<Rightarrow> bool" where
  "op_ne_sT lhs rhs = (\<not> op_eq_sT lhs rhs)"

definition op_ne_Ts :: "'a::len word \<Rightarrow> 'a word safe_integral \<Rightarrow> bool" where
  "op_ne_Ts lhs rhs = (\<not> op_eq_Ts lhs rhs)"

definition op_lt :: "bool \<Rightarrow> 'a::len word safe_integral \<Rightarrow> 'a word safe_integral \<Rightarrow> bool" where
  "op_lt sg lhs rhs = (native_less sg (get lhs) (get rhs) \<and> \<not> failure lhs \<and> \<not> failure rhs)"

definition op_lt_sT :: "bool \<Rightarrow> 'a::len word safe_integral \<Rightarrow> 'a word \<Rightarrow> bool" where
  "op_lt_sT sg lhs rhs = (native_less sg (get lhs) rhs \<and> \<not> failure lhs)"

definition op_lt_Ts :: "bool \<Rightarrow> 'a::len word \<Rightarrow> 'a word safe_integral \<Rightarrow> bool" where
  "op_lt_Ts sg lhs rhs = (native_less sg lhs (get rhs) \<and> \<not> failure rhs)"

definition op_le :: "bool \<Rightarrow> 'a::len word safe_integral \<Rightarrow> 'a word safe_integral \<Rightarrow> bool" where
  "op_le sg lhs rhs = (native_less_eq sg (get lhs) (get rhs) \<and> \<not> failure lhs \<and> \<not> failure rhs)"

definition op_le_sT :: "bool \<Rightarrow> 'a::len word safe_integral \<Rightarrow> 'a word \<Rightarrow> bool" where
  "op_le_sT sg lhs rhs = (native_less_eq sg (get lhs) rhs \<and> \<not> failure lhs)"

definition op_le_Ts :: "bool \<Rightarrow> 'a::len word \<Rightarrow> 'a word safe_integral \<Rightarrow> bool" where
  "op_le_Ts sg lhs rhs = (native_less_eq sg lhs (get rhs) \<and> \<not> failure rhs)"

definition op_gt :: "bool \<Rightarrow> 'a::len word safe_integral \<Rightarrow> 'a word safe_integral \<Rightarrow> bool" where
  "op_gt sg lhs rhs = (native_greater sg (get lhs) (get rhs) \<and> \<not> failure lhs \<and> \<not> failure rhs)"

definition op_gt_sT :: "bool \<Rightarrow> 'a::len word safe_integral \<Rightarrow> 'a word \<Rightarrow> bool" where
  "op_gt_sT sg lhs rhs = (native_greater sg (get lhs) rhs \<and> \<not> failure lhs)"

definition op_gt_Ts :: "bool \<Rightarrow> 'a::len word \<Rightarrow> 'a word safe_integral \<Rightarrow> bool" where
  "op_gt_Ts sg lhs rhs = (native_greater sg lhs (get rhs) \<and> \<not> failure rhs)"

definition op_ge :: "bool \<Rightarrow> 'a::len word safe_integral \<Rightarrow> 'a word safe_integral \<Rightarrow> bool" where
  "op_ge sg lhs rhs =
     (native_greater_eq sg (get lhs) (get rhs) \<and> \<not> failure lhs \<and> \<not> failure rhs)"

definition op_ge_sT :: "bool \<Rightarrow> 'a::len word safe_integral \<Rightarrow> 'a word \<Rightarrow> bool" where
  "op_ge_sT sg lhs rhs = (native_greater_eq sg (get lhs) rhs \<and> \<not> failure lhs)"

definition op_ge_Ts :: "bool \<Rightarrow> 'a::len word \<Rightarrow> 'a word safe_integral \<Rightarrow> bool" where
  "op_ge_Ts sg lhs rhs = (native_greater_eq sg lhs (get rhs) \<and> \<not> failure rhs)"

subsection \<open>Inspection\<close>

definition is_pos :: "bool \<Rightarrow> 'a::len word safe_integral \<Rightarrow> bool" where
  "is_pos sg this = op_lt sg (zero_si False) this"

definition is_neg :: "bool \<Rightarrow> 'a::len word safe_integral \<Rightarrow> bool" where
  "is_neg sg this = (if is_unsigned_type sg then False else op_gt sg (zero_si False) this)"

definition is_zero :: "'a::len word safe_integral \<Rightarrow> bool" where
  "is_zero this = (if m_error this then True else get (zero_si False) = m_val this)"

definition is_max :: "bool \<Rightarrow> 'a::len word safe_integral \<Rightarrow> bool" where
  "is_max sg this = op_eq_Ts (max_si sg) this"

definition is_min :: "bool \<Rightarrow> 'a::len word safe_integral \<Rightarrow> bool" where
  "is_min sg this = op_eq_Ts (min_si sg) this"


subsection \<open>Compound assignment: addition, subtraction, multiplication\<close>

text \<open>
  A member function takes the object \<open>this\<close> and returns it updated.  The
  overload with a \<open>T\<close> on the right has the suffix \<open>T\<close>.
\<close>

definition add_assign ::
  "bool \<Rightarrow> bool \<Rightarrow> 'a::len word safe_integral \<Rightarrow> 'a word safe_integral
     \<Rightarrow> 'a word safe_integral option" where
  "add_assign ce sg this rhs =
     do { (res, err) \<leftarrow> builtin_add_overflow ce sg (m_val this) (m_val rhs);
          Some \<lparr>m_val = res, m_error = (m_error this \<or> (err \<or> failure rhs))\<rparr> }"

definition add_assign_T ::
  "bool \<Rightarrow> bool \<Rightarrow> 'a::len word safe_integral \<Rightarrow> 'a word \<Rightarrow> 'a word safe_integral option" where
  "add_assign_T ce sg this rhs =
     do { (res, err) \<leftarrow> builtin_add_overflow ce sg (m_val this) rhs;
          Some \<lparr>m_val = res, m_error = (m_error this \<or> err)\<rparr> }"

definition sub_assign ::
  "bool \<Rightarrow> bool \<Rightarrow> 'a::len word safe_integral \<Rightarrow> 'a word safe_integral
     \<Rightarrow> 'a word safe_integral option" where
  "sub_assign ce sg this rhs =
     do { (res, err) \<leftarrow> builtin_sub_overflow ce sg (m_val this) (m_val rhs);
          Some \<lparr>m_val = res, m_error = (m_error this \<or> (err \<or> failure rhs))\<rparr> }"

definition sub_assign_T ::
  "bool \<Rightarrow> bool \<Rightarrow> 'a::len word safe_integral \<Rightarrow> 'a word \<Rightarrow> 'a word safe_integral option" where
  "sub_assign_T ce sg this rhs =
     do { (res, err) \<leftarrow> builtin_sub_overflow ce sg (m_val this) rhs;
          Some \<lparr>m_val = res, m_error = (m_error this \<or> err)\<rparr> }"

definition mul_assign ::
  "bool \<Rightarrow> bool \<Rightarrow> 'a::len word safe_integral \<Rightarrow> 'a word safe_integral
     \<Rightarrow> 'a word safe_integral option" where
  "mul_assign ce sg this rhs =
     do { (res, err) \<leftarrow> builtin_mul_overflow ce sg (m_val this) (m_val rhs);
          Some \<lparr>m_val = res, m_error = (m_error this \<or> (err \<or> failure rhs))\<rparr> }"

definition mul_assign_T ::
  "bool \<Rightarrow> bool \<Rightarrow> 'a::len word safe_integral \<Rightarrow> 'a word \<Rightarrow> 'a word safe_integral option" where
  "mul_assign_T ce sg this rhs =
     do { (res, err) \<leftarrow> builtin_mul_overflow ce sg (m_val this) rhs;
          Some \<lparr>m_val = res, m_error = (m_error this \<or> err)\<rparr> }"

text \<open>\<open>operator++\<close> and \<open>operator--\<close>.\<close>

definition inc :: "bool \<Rightarrow> bool \<Rightarrow> 'a::len word safe_integral \<Rightarrow> 'a word safe_integral option" where
  "inc ce sg this =
     do { (res, err) \<leftarrow> builtin_add_overflow ce sg (m_val this) (get (one_si False));
          Some \<lparr>m_val = res, m_error = (m_error this \<or> err)\<rparr> }"

definition dec :: "bool \<Rightarrow> bool \<Rightarrow> 'a::len word safe_integral \<Rightarrow> 'a word safe_integral option" where
  "dec ce sg this =
     do { (res, err) \<leftarrow> builtin_sub_overflow ce sg (m_val this) (get (one_si False));
          Some \<lparr>m_val = res, m_error = (m_error this \<or> err)\<rparr> }"

text \<open>
  The free operators \<open>-\<close>, binary on two \<open>safe_integral\<close>s, and unary (declared for
  a signed \<open>T\<close> only): the division below calls them.
\<close>

definition op_sub ::
  "bool \<Rightarrow> bool \<Rightarrow> 'a::len word safe_integral \<Rightarrow> 'a word safe_integral
     \<Rightarrow> 'a word safe_integral option" where
  "op_sub ce sg lhs rhs = (let tmp = lhs in sub_assign ce sg tmp rhs)"

definition op_neg :: "bool \<Rightarrow> 'a::len word safe_integral \<Rightarrow> 'a word safe_integral option" where
  "op_neg ce rhs = op_sub ce True (zero_si False) rhs"

subsection \<open>Compound assignment: division and remainder\<close>

definition div_assign ::
  "bool \<Rightarrow> bool \<Rightarrow> 'a::len word safe_integral \<Rightarrow> 'a word safe_integral
     \<Rightarrow> 'a word safe_integral option" where
  "div_assign ce sg this rhs =
     (if failure this \<or> failure rhs then Some (this\<lparr>m_error := True\<rparr>)
      else if op_eq (zero_si False) rhs
      then do { e \<leftarrow> integral_overflow_underflow_wrap_error ce; Some (this\<lparr>m_error := e\<rparr>) }
      else
        do { edge \<leftarrow> (if is_signed_type sg then
                        (if min_si sg = m_val this
                         then do { m1 \<leftarrow> op_neg ce (one_si False); Some (op_eq m1 rhs) }
                         else Some False)
                      else Some False);
             if edge
             then do { e \<leftarrow> integral_overflow_underflow_wrap_error ce;
                       Some (this\<lparr>m_error := e\<rparr>) }
             else do { q \<leftarrow> native_div sg (m_val this) (m_val rhs);
                       Some (this\<lparr>m_val := q\<rparr>) } })"

definition div_assign_T ::
  "bool \<Rightarrow> bool \<Rightarrow> 'a::len word safe_integral \<Rightarrow> 'a word \<Rightarrow> 'a word safe_integral option" where
  "div_assign_T ce sg this rhs = div_assign ce sg this (safe_integral_T rhs)"

definition mod_assign ::
  "bool \<Rightarrow> bool \<Rightarrow> 'a::len word safe_integral \<Rightarrow> 'a word safe_integral
     \<Rightarrow> 'a word safe_integral option" where
  "mod_assign ce sg this rhs =
     (if failure this \<or> failure rhs then Some (this\<lparr>m_error := True\<rparr>)
      else if op_eq (zero_si False) rhs
      then do { e \<leftarrow> integral_overflow_underflow_wrap_error ce; Some (this\<lparr>m_error := e\<rparr>) }
      else
        do { edge \<leftarrow> (if is_signed_type sg then
                        (if min_si sg = m_val this
                         then do { m1 \<leftarrow> op_neg ce (one_si False); Some (op_eq_sT m1 (m_val rhs)) }
                         else Some False)
                      else Some False);
             if edge
             then do { e \<leftarrow> integral_overflow_underflow_wrap_error ce;
                       Some (this\<lparr>m_error := e\<rparr>) }
             else do { r \<leftarrow> native_mod sg (m_val this) (m_val rhs);
                       Some (this\<lparr>m_val := r\<rparr>) } })"

definition mod_assign_T ::
  "bool \<Rightarrow> bool \<Rightarrow> 'a::len word safe_integral \<Rightarrow> 'a word \<Rightarrow> 'a word safe_integral option" where
  "mod_assign_T ce sg this rhs = mod_assign ce sg this (safe_integral_T rhs)"

subsection \<open>The free arithmetic operators\<close>

definition op_add ::
  "bool \<Rightarrow> bool \<Rightarrow> 'a::len word safe_integral \<Rightarrow> 'a word safe_integral
     \<Rightarrow> 'a word safe_integral option" where
  "op_add ce sg lhs rhs = (let tmp = lhs in add_assign ce sg tmp rhs)"

definition op_add_sT ::
  "bool \<Rightarrow> bool \<Rightarrow> 'a::len word safe_integral \<Rightarrow> 'a word \<Rightarrow> 'a word safe_integral option" where
  "op_add_sT ce sg lhs rhs = op_add ce sg lhs (safe_integral_T rhs)"

definition op_add_Ts ::
  "bool \<Rightarrow> bool \<Rightarrow> 'a::len word \<Rightarrow> 'a word safe_integral \<Rightarrow> 'a word safe_integral option" where
  "op_add_Ts ce sg lhs rhs = op_add ce sg (safe_integral_T lhs) rhs"

definition op_sub_sT ::
  "bool \<Rightarrow> bool \<Rightarrow> 'a::len word safe_integral \<Rightarrow> 'a word \<Rightarrow> 'a word safe_integral option" where
  "op_sub_sT ce sg lhs rhs = op_sub ce sg lhs (safe_integral_T rhs)"

definition op_sub_Ts ::
  "bool \<Rightarrow> bool \<Rightarrow> 'a::len word \<Rightarrow> 'a word safe_integral \<Rightarrow> 'a word safe_integral option" where
  "op_sub_Ts ce sg lhs rhs = op_sub ce sg (safe_integral_T lhs) rhs"

definition op_mul ::
  "bool \<Rightarrow> bool \<Rightarrow> 'a::len word safe_integral \<Rightarrow> 'a word safe_integral
     \<Rightarrow> 'a word safe_integral option" where
  "op_mul ce sg lhs rhs = (let tmp = lhs in mul_assign ce sg tmp rhs)"

definition op_mul_sT ::
  "bool \<Rightarrow> bool \<Rightarrow> 'a::len word safe_integral \<Rightarrow> 'a word \<Rightarrow> 'a word safe_integral option" where
  "op_mul_sT ce sg lhs rhs = op_mul ce sg lhs (safe_integral_T rhs)"

definition op_mul_Ts ::
  "bool \<Rightarrow> bool \<Rightarrow> 'a::len word \<Rightarrow> 'a word safe_integral \<Rightarrow> 'a word safe_integral option" where
  "op_mul_Ts ce sg lhs rhs = op_mul ce sg (safe_integral_T lhs) rhs"

definition op_div ::
  "bool \<Rightarrow> bool \<Rightarrow> 'a::len word safe_integral \<Rightarrow> 'a word safe_integral
     \<Rightarrow> 'a word safe_integral option" where
  "op_div ce sg lhs rhs = (let tmp = lhs in div_assign ce sg tmp rhs)"

definition op_div_sT ::
  "bool \<Rightarrow> bool \<Rightarrow> 'a::len word safe_integral \<Rightarrow> 'a word \<Rightarrow> 'a word safe_integral option" where
  "op_div_sT ce sg lhs rhs = op_div ce sg lhs (safe_integral_T rhs)"

definition op_div_Ts ::
  "bool \<Rightarrow> bool \<Rightarrow> 'a::len word \<Rightarrow> 'a word safe_integral \<Rightarrow> 'a word safe_integral option" where
  "op_div_Ts ce sg lhs rhs = op_div ce sg (safe_integral_T lhs) rhs"

definition op_mod ::
  "bool \<Rightarrow> bool \<Rightarrow> 'a::len word safe_integral \<Rightarrow> 'a word safe_integral
     \<Rightarrow> 'a word safe_integral option" where
  "op_mod ce sg lhs rhs = (let tmp = lhs in mod_assign ce sg tmp rhs)"

definition op_mod_sT ::
  "bool \<Rightarrow> bool \<Rightarrow> 'a::len word safe_integral \<Rightarrow> 'a word \<Rightarrow> 'a word safe_integral option" where
  "op_mod_sT ce sg lhs rhs = op_mod ce sg lhs (safe_integral_T rhs)"

definition op_mod_Ts ::
  "bool \<Rightarrow> bool \<Rightarrow> 'a::len word \<Rightarrow> 'a word safe_integral \<Rightarrow> 'a word safe_integral option" where
  "op_mod_Ts ce sg lhs rhs = op_mod ce sg (safe_integral_T lhs) rhs"


subsection \<open>Shift operators\<close>

text \<open>
  The shift and bitwise operators are declared for an unsigned \<open>T\<close> only, so
  they take no \<open>sg\<close>.  The compound forms take \<open>lhs\<close> by reference and assign a
  new object to it: they return the new \<open>lhs\<close>.  \<open>bits\<close> is the value of the
  unsigned count.
\<close>

definition shl_assign :: "'a::len word safe_integral \<Rightarrow> nat \<Rightarrow> 'a word safe_integral option" where
  "shl_assign lhs bits =
     do { tmp \<leftarrow> native_shl (get lhs) bits;
          Some (safe_integral_T_err tmp (failure lhs)) }"

definition op_shl :: "'a::len word safe_integral \<Rightarrow> nat \<Rightarrow> 'a word safe_integral option" where
  "op_shl lhs bits =
     do { tmp \<leftarrow> native_shl (get lhs) bits;
          Some (safe_integral_T_err tmp (failure lhs)) }"

definition shr_assign :: "'a::len word safe_integral \<Rightarrow> nat \<Rightarrow> 'a word safe_integral option" where
  "shr_assign lhs bits =
     do { tmp \<leftarrow> native_shr (get lhs) bits;
          Some (safe_integral_T_err tmp (failure lhs)) }"

definition op_shr :: "'a::len word safe_integral \<Rightarrow> nat \<Rightarrow> 'a word safe_integral option" where
  "op_shr lhs bits =
     do { tmp \<leftarrow> native_shr (get lhs) bits;
          Some (safe_integral_T_err tmp (failure lhs)) }"

subsection \<open>Bitwise operators\<close>

definition and_assign ::
  "'a::len word safe_integral \<Rightarrow> 'a word safe_integral \<Rightarrow> 'a word safe_integral" where
  "and_assign lhs rhs =
     (let tmp = get lhs; tmp = tmp AND get rhs
      in safe_integral_T_err tmp (failure lhs \<or> failure rhs))"

definition and_assign_T :: "'a::len word safe_integral \<Rightarrow> 'a word \<Rightarrow> 'a word safe_integral" where
  "and_assign_T lhs rhs =
     (let tmp = get lhs; tmp = tmp AND rhs in safe_integral_T_err tmp (failure lhs))"

definition op_and ::
  "'a::len word safe_integral \<Rightarrow> 'a word safe_integral \<Rightarrow> 'a word safe_integral" where
  "op_and lhs rhs = (let tmp = lhs in and_assign tmp rhs)"

definition op_and_sT :: "'a::len word safe_integral \<Rightarrow> 'a word \<Rightarrow> 'a word safe_integral" where
  "op_and_sT lhs rhs = op_and lhs (safe_integral_T rhs)"

definition op_and_Ts :: "'a::len word \<Rightarrow> 'a word safe_integral \<Rightarrow> 'a word safe_integral" where
  "op_and_Ts lhs rhs = op_and (safe_integral_T lhs) rhs"

definition or_assign ::
  "'a::len word safe_integral \<Rightarrow> 'a word safe_integral \<Rightarrow> 'a word safe_integral" where
  "or_assign lhs rhs =
     (let tmp = get lhs; tmp = tmp OR get rhs
      in safe_integral_T_err tmp (failure lhs \<or> failure rhs))"

definition or_assign_T :: "'a::len word safe_integral \<Rightarrow> 'a word \<Rightarrow> 'a word safe_integral" where
  "or_assign_T lhs rhs =
     (let tmp = get lhs; tmp = tmp OR rhs in safe_integral_T_err tmp (failure lhs))"

definition op_or ::
  "'a::len word safe_integral \<Rightarrow> 'a word safe_integral \<Rightarrow> 'a word safe_integral" where
  "op_or lhs rhs = (let tmp = lhs in or_assign tmp rhs)"

definition op_or_sT :: "'a::len word safe_integral \<Rightarrow> 'a word \<Rightarrow> 'a word safe_integral" where
  "op_or_sT lhs rhs = op_or lhs (safe_integral_T rhs)"

definition op_or_Ts :: "'a::len word \<Rightarrow> 'a word safe_integral \<Rightarrow> 'a word safe_integral" where
  "op_or_Ts lhs rhs = op_or (safe_integral_T lhs) rhs"

definition xor_assign ::
  "'a::len word safe_integral \<Rightarrow> 'a word safe_integral \<Rightarrow> 'a word safe_integral" where
  "xor_assign lhs rhs =
     (let tmp = get lhs; tmp = tmp XOR get rhs
      in safe_integral_T_err tmp (failure lhs \<or> failure rhs))"

definition xor_assign_T :: "'a::len word safe_integral \<Rightarrow> 'a word \<Rightarrow> 'a word safe_integral" where
  "xor_assign_T lhs rhs =
     (let tmp = get lhs; tmp = tmp XOR rhs in safe_integral_T_err tmp (failure lhs))"

definition op_xor ::
  "'a::len word safe_integral \<Rightarrow> 'a word safe_integral \<Rightarrow> 'a word safe_integral" where
  "op_xor lhs rhs = (let tmp = lhs in xor_assign tmp rhs)"

definition op_xor_sT :: "'a::len word safe_integral \<Rightarrow> 'a word \<Rightarrow> 'a word safe_integral" where
  "op_xor_sT lhs rhs = op_xor lhs (safe_integral_T rhs)"

definition op_xor_Ts :: "'a::len word \<Rightarrow> 'a word safe_integral \<Rightarrow> 'a word safe_integral" where
  "op_xor_Ts lhs rhs = op_xor (safe_integral_T lhs) rhs"

definition op_not :: "'a::len word safe_integral \<Rightarrow> 'a word safe_integral" where
  "op_not rhs = op_xor_Ts (max_si False) rhs"


section \<open>Vocabulary of the properties\<close>

text \<open>The exact result \<open>r\<close> lies between \<open>min()\<close> and \<open>max()\<close> of \<open>T\<close>.\<close>

definition representable :: "bool \<Rightarrow> 'a::len itself \<Rightarrow> int \<Rightarrow> bool" where
  "representable sg T r =
     (value_of sg (min_si sg :: 'a word) \<le> r \<and> r \<le> value_of sg (max_si sg :: 'a word))"

text \<open>
  The five arithmetic operators by name: the compound assignment with a
  \<open>safe_integral\<close> and with a \<open>T\<close>, and the three free binary overloads.
\<close>

datatype arith_op = Add | Sub | Mul | Div | Mod

fun compound_assign ::
  "arith_op \<Rightarrow> bool \<Rightarrow> bool \<Rightarrow> 'a::len word safe_integral \<Rightarrow> 'a word safe_integral
     \<Rightarrow> 'a word safe_integral option" where
  "compound_assign Add = add_assign"
| "compound_assign Sub = sub_assign"
| "compound_assign Mul = mul_assign"
| "compound_assign Div = div_assign"
| "compound_assign Mod = mod_assign"

fun compound_assign_T ::
  "arith_op \<Rightarrow> bool \<Rightarrow> bool \<Rightarrow> 'a::len word safe_integral \<Rightarrow> 'a word
     \<Rightarrow> 'a word safe_integral option" where
  "compound_assign_T Add = add_assign_T"
| "compound_assign_T Sub = sub_assign_T"
| "compound_assign_T Mul = mul_assign_T"
| "compound_assign_T Div = div_assign_T"
| "compound_assign_T Mod = mod_assign_T"

fun binary_op ::
  "arith_op \<Rightarrow> bool \<Rightarrow> bool \<Rightarrow> 'a::len word safe_integral \<Rightarrow> 'a word safe_integral
     \<Rightarrow> 'a word safe_integral option" where
  "binary_op Add = op_add"
| "binary_op Sub = op_sub"
| "binary_op Mul = op_mul"
| "binary_op Div = op_div"
| "binary_op Mod = op_mod"

fun binary_op_sT ::
  "arith_op \<Rightarrow> bool \<Rightarrow> bool \<Rightarrow> 'a::len word safe_integral \<Rightarrow> 'a word
     \<Rightarrow> 'a word safe_integral option" where
  "binary_op_sT Add = op_add_sT"
| "binary_op_sT Sub = op_sub_sT"
| "binary_op_sT Mul = op_mul_sT"
| "binary_op_sT Div = op_div_sT"
| "binary_op_sT Mod = op_mod_sT"

fun binary_op_Ts ::
  "arith_op \<Rightarrow> bool \<Rightarrow> bool \<Rightarrow> 'a::len word \<Rightarrow> 'a word safe_integral
     \<Rightarrow> 'a word safe_integral option" where
  "binary_op_Ts Add = op_add_Ts"
| "binary_op_Ts Sub = op_sub_Ts"
| "binary_op_Ts Mul = op_mul_Ts"
| "binary_op_Ts Div = op_div_Ts"
| "binary_op_Ts Mod = op_mod_Ts"

text \<open>
  Every operation of the header that changes an object in place, with its
  right operand: the members \<open>operator=(U)\<close>, \<open>set_failure\<close>, the compound
  assignments, \<open>++\<close> and \<open>--\<close>, and the free compound shifts and bitwise
  operators, which take the object by reference.  The copy assignment that the
  compiler generates replaces the whole object by another one and is not among
  them.
\<close>

datatype 't mutation =
    Assign_T 't
  | Set_failure
  | Arith arith_op "'t safe_integral"
  | Arith_T arith_op 't
  | Inc
  | Dec
  | Shl_assign nat
  | Shr_assign nat
  | And_assign "'t safe_integral"
  | And_assign_T 't
  | Or_assign "'t safe_integral"
  | Or_assign_T 't
  | Xor_assign "'t safe_integral"
  | Xor_assign_T 't

fun mutate ::
  "bool \<Rightarrow> bool \<Rightarrow> 'a::len word mutation \<Rightarrow> 'a word safe_integral
     \<Rightarrow> 'a word safe_integral option" where
  "mutate ce sg (Assign_T val) this = Some (assign_T this val)"
| "mutate ce sg Set_failure this = Some (set_failure this)"
| "mutate ce sg (Arith op rhs) this = compound_assign op ce sg this rhs"
| "mutate ce sg (Arith_T op rhs) this = compound_assign_T op ce sg this rhs"
| "mutate ce sg Inc this = inc ce sg this"
| "mutate ce sg Dec this = dec ce sg this"
| "mutate ce sg (Shl_assign bits) this = shl_assign this bits"
| "mutate ce sg (Shr_assign bits) this = shr_assign this bits"
| "mutate ce sg (And_assign rhs) this = Some (and_assign this rhs)"
| "mutate ce sg (And_assign_T rhs) this = Some (and_assign_T this rhs)"
| "mutate ce sg (Or_assign rhs) this = Some (or_assign this rhs)"
| "mutate ce sg (Or_assign_T rhs) this = Some (or_assign_T this rhs)"
| "mutate ce sg (Xor_assign rhs) this = Some (xor_assign this rhs)"
| "mutate ce sg (Xor_assign_T rhs) this = Some (xor_assign_T this rhs)"

fun is_assign_T :: "'t mutation \<Rightarrow> bool" where
  "is_assign_T (Assign_T val) = True"
| "is_assign_T mu = False"

fun is_shift :: "'t mutation \<Rightarrow> bool" where
  "is_shift (Shl_assign bits) = True"
| "is_shift (Shr_assign bits) = True"
| "is_shift mu = False"

subsection \<open>Operands behind references\<close>

text \<open>
  The free binary operators take both operands by reference to \<open>const\<close> and
  work on a local copy.  To say what that leaves untouched, the objects live
  in a store, addressed by numbers.  \<open>compound_assign_at\<close> is the member
  called on the object at \<open>this\<close> with the object at \<open>rhs\<close> for its argument;
  \<open>binary_op_at\<close> is the body \<open>safe_integral<T> tmp{lhs}; return tmp op= rhs;\<close>
  with the local \<open>tmp\<close> at an address of its own: it returns the value and the
  store it leaves.
\<close>

type_synonym 't store = "nat \<Rightarrow> 't safe_integral"

definition compound_assign_at ::
  "arith_op \<Rightarrow> bool \<Rightarrow> bool \<Rightarrow> nat \<Rightarrow> nat \<Rightarrow> 'a::len word store \<Rightarrow> 'a word store option" where
  "compound_assign_at op ce sg this rhs s =
     do { r \<leftarrow> compound_assign op ce sg (s this) (s rhs); Some (s(this := r)) }"

definition binary_op_at ::
  "arith_op \<Rightarrow> bool \<Rightarrow> bool \<Rightarrow> nat \<Rightarrow> nat \<Rightarrow> nat \<Rightarrow> 'a::len word store
     \<Rightarrow> ('a word safe_integral \<times> 'a word store) option" where
  "binary_op_at op ce sg tmp lhs rhs s =
     do { s' \<leftarrow> compound_assign_at op ce sg tmp rhs (s(tmp := s lhs)); Some (s' tmp, s') }"


section \<open>Properties\<close>

subsection \<open>Ranges and the overflow flag\<close>

lemma value_of_word_of_int_iff:
  "value_of sg (word_of_int r :: 'a::len word) = r \<longleftrightarrow>
     (if sg then - (2 ^ (LENGTH('a) - 1)) \<le> r \<and> r < 2 ^ (LENGTH('a) - 1)
      else 0 \<le> r \<and> r < 2 ^ LENGTH('a))"
  by (simp add: value_of_def sint_sbintrunc' uint_word_of_int_eq
      signed_take_bit_int_eq_self_iff take_bit_int_eq_self_iff)

lemma value_of_min_si:
  "value_of sg (min_si sg :: 'a::len word) = (if sg then - (2 ^ (LENGTH('a) - 1)) else 0)"
proof (cases sg)
  case True
  have "value_of True (word_of_int (- (2 ^ (LENGTH('a) - 1))) :: 'a word) = - (2 ^ (LENGTH('a) - 1))"
    by (simp only: value_of_word_of_int_iff) simp
  with True show ?thesis by (simp add: min_si_def numeric_limits_min_def)
next
  case False
  then show ?thesis by (simp add: min_si_def numeric_limits_min_def value_of_def)
qed

lemma value_of_max_si:
  "value_of sg (max_si sg :: 'a::len word) =
     (if sg then 2 ^ (LENGTH('a) - 1) - 1 else 2 ^ LENGTH('a) - 1)"
proof (cases sg)
  case True
  have "value_of True (word_of_int (2 ^ (LENGTH('a) - 1) - 1) :: 'a word) = 2 ^ (LENGTH('a) - 1) - 1"
    by (simp only: value_of_word_of_int_iff) simp
  with True show ?thesis by (simp add: max_si_def numeric_limits_max_def)
next
  case False
  have "value_of False (word_of_int (2 ^ LENGTH('a) - 1) :: 'a word) = 2 ^ LENGTH('a) - 1"
    by (simp only: value_of_word_of_int_iff) simp
  moreover have "(word_of_int (2 ^ LENGTH('a) - 1) :: 'a word) = - 1"
    by (simp add: word_of_int_2p_len)
  ultimately show ?thesis using False by (simp add: max_si_def numeric_limits_max_def)
qed

text \<open>A result is representable exactly when the conversion to \<open>T\<close> keeps it.\<close>

lemma representable_iff:
  "representable sg TYPE('a::len) r \<longleftrightarrow> value_of sg (word_of_int r :: 'a word) = r"
  by (auto simp add: representable_def value_of_word_of_int_iff value_of_min_si value_of_max_si)

lemma intrinsic_overflow_eq:
  "intrinsic_overflow sg r = (word_of_int r :: 'a::len word, \<not> representable sg TYPE('a) r)"
  by (simp add: intrinsic_overflow_def Let_def representable_iff)

text \<open>
  The three checked operations return at run time, always.  In a constant
  evaluation they have no value exactly when the result is not representable.
\<close>

lemma builtin_add_overflow_eq:
  fixes lhs rhs :: "'a::len word"
  shows "builtin_add_overflow ce sg lhs rhs =
     (if ce \<and> \<not> representable sg TYPE('a) (value_of sg lhs + value_of sg rhs) then None
      else Some (word_of_int (value_of sg lhs + value_of sg rhs),
                 \<not> representable sg TYPE('a) (value_of sg lhs + value_of sg rhs)))"
  by (simp add: builtin_add_overflow_def BSL_PERFORCE_def intrinsic_add_overflow_def
      intrinsic_overflow_eq integral_overflow_underflow_wrap_error_def)

lemma builtin_sub_overflow_eq:
  fixes lhs rhs :: "'a::len word"
  shows "builtin_sub_overflow ce sg lhs rhs =
     (if ce \<and> \<not> representable sg TYPE('a) (value_of sg lhs - value_of sg rhs) then None
      else Some (word_of_int (value_of sg lhs - value_of sg rhs),
                 \<not> representable sg TYPE('a) (value_of sg lhs - value_of sg rhs)))"
  by (simp add: builtin_sub_overflow_def BSL_PERFORCE_def intrinsic_sub_overflow_def
      intrinsic_overflow_eq integral_overflow_underflow_wrap_error_def)

lemma builtin_mul_overflow_eq:
  fixes lhs rhs :: "'a::len word"
  shows "builtin_mul_overflow ce sg lhs rhs =
     (if ce \<and> \<not> representable sg TYPE('a) (value_of sg lhs * value_of sg rhs) then None
      else Some (word_of_int (value_of sg lhs * value_of sg rhs),
                 \<not> representable sg TYPE('a) (value_of sg lhs * value_of sg rhs)))"
  by (simp add: builtin_mul_overflow_def BSL_PERFORCE_def intrinsic_mul_overflow_def
      intrinsic_overflow_eq integral_overflow_underflow_wrap_error_def)

lemmas builtin_overflow_eq =
  builtin_add_overflow_eq builtin_sub_overflow_eq builtin_mul_overflow_eq

subsection \<open>Reading a poisoned value\<close>

text \<open>
  Claim C1.  Whatever \<open>m_val\<close> holds, \<open>get()\<close> of an instance whose error flag is
  set returns \<open>0\<close> and \<open>is_zero()\<close> returns \<open>true\<close>, for every \<open>T\<close>.
\<close>

theorem poisoned_reads_as_zero:
  "m_error this \<Longrightarrow> get this = 0 \<and> is_zero this"
  by (simp add: get_def is_zero_def)

theorem poisoned_reads_as_zero_witness:
  "m_error \<lparr>m_val = 42 :: 32 word, m_error = True\<rparr>
   \<and> get \<lparr>m_val = 42 :: 32 word, m_error = True\<rparr> = 0
   \<and> is_zero \<lparr>m_val = 42 :: 32 word, m_error = True\<rparr>"
  using poisoned_reads_as_zero [of "\<lparr>m_val = 42 :: 32 word, m_error = True\<rparr>"] by simp

text \<open>
  Claim C6.  The constructor from a raw value \<open>v\<close> gives an instance without
  error whose \<open>get()\<close> is \<open>v\<close>, for every \<open>v\<close> of \<open>T\<close>.
\<close>

theorem construct_from_raw_round_trip:
  "\<not> failure (safe_integral_T v) \<and> operator_bool (safe_integral_T v)
   \<and> get (safe_integral_T v) = v"
  by (simp add: safe_integral_T_def failure_def get_def operator_bool_def)

theorem construct_from_raw_round_trip_witness:
  "\<not> failure (safe_integral_T (200 :: 8 word)) \<and> get (safe_integral_T (200 :: 8 word)) = 200"
  using construct_from_raw_round_trip [of "200 :: 8 word"] by simp

text \<open>
  Claim C10.  \<open>is_min()\<close> and \<open>is_max()\<close> of an instance whose error flag is set
  are both \<open>false\<close>, also when \<open>m_val\<close> is the minimum or the maximum of \<open>T\<close>.
\<close>

theorem poisoned_is_neither_min_nor_max:
  "m_error this \<Longrightarrow> \<not> is_min sg this \<and> \<not> is_max sg this"
  by (simp add: is_min_def is_max_def op_eq_Ts_def failure_def)

theorem poisoned_is_neither_min_nor_max_witness:
  "m_error (safe_integral_T_err (max_si True :: 8 word) True)
   \<and> m_val (safe_integral_T_err (max_si True :: 8 word) True) = 127
   \<and> is_max True (safe_integral_T (max_si True :: 8 word))
   \<and> \<not> is_min True (safe_integral_T_err (max_si True :: 8 word) True)
   \<and> \<not> is_max True (safe_integral_T_err (max_si True :: 8 word) True)"
  using poisoned_is_neither_min_nor_max [of "safe_integral_T_err (max_si True :: 8 word) True" True]
  by (simp add: safe_integral_T_err_def safe_integral_T_def max_si_def numeric_limits_max_def
      is_max_def op_eq_Ts_def get_def failure_def)

subsection \<open>Comparisons\<close>

text \<open>
  Claim C4.  \<open>==\<close>, \<open><\<close>, \<open><=\<close>, \<open>>\<close> and \<open>>=\<close> are false as soon as one side has its
  error flag set, and \<open>!=\<close> is the negation of \<open>==\<close>, so it is true there: for
  two \<open>safe_integral\<close>s (also the same one twice) and for the overloads with a
  raw \<open>T\<close> on either side.
\<close>

theorem comparisons_with_poisoned:
  "(failure lhs \<or> failure rhs \<longrightarrow>
      \<not> op_eq lhs rhs \<and> \<not> op_lt sg lhs rhs \<and> \<not> op_le sg lhs rhs
      \<and> \<not> op_gt sg lhs rhs \<and> \<not> op_ge sg lhs rhs \<and> op_ne lhs rhs)
   \<and> (failure lhs \<longrightarrow>
      \<not> op_eq_sT lhs v \<and> \<not> op_lt_sT sg lhs v \<and> \<not> op_le_sT sg lhs v
      \<and> \<not> op_gt_sT sg lhs v \<and> \<not> op_ge_sT sg lhs v \<and> op_ne_sT lhs v)
   \<and> (failure rhs \<longrightarrow>
      \<not> op_eq_Ts v rhs \<and> \<not> op_lt_Ts sg v rhs \<and> \<not> op_le_Ts sg v rhs
      \<and> \<not> op_gt_Ts sg v rhs \<and> \<not> op_ge_Ts sg v rhs \<and> op_ne_Ts v rhs)
   \<and> op_ne lhs rhs = (\<not> op_eq lhs rhs)
   \<and> op_ne_sT lhs v = (\<not> op_eq_sT lhs v)
   \<and> op_ne_Ts v rhs = (\<not> op_eq_Ts v rhs)"
  by (simp add: op_eq_def op_lt_def op_le_def op_gt_def op_ge_def op_ne_def
      op_eq_sT_def op_lt_sT_def op_le_sT_def op_gt_sT_def op_ge_sT_def op_ne_sT_def
      op_eq_Ts_def op_lt_Ts_def op_le_Ts_def op_gt_Ts_def op_ge_Ts_def op_ne_Ts_def)

theorem comparisons_with_poisoned_witness:
  "failure (safe_integral_T_err (42 :: 32 word) True)
   \<and> \<not> op_eq (safe_integral_T_err (42 :: 32 word) True) (safe_integral_T_err 42 True)
   \<and> \<not> op_le True (safe_integral_T_err (42 :: 32 word) True) (safe_integral_T_err 42 True)
   \<and> op_ne (safe_integral_T_err (42 :: 32 word) True) (safe_integral_T_err 42 True)
   \<and> \<not> op_eq_sT (safe_integral_T_err (42 :: 32 word) True) 0
   \<and> op_ne_Ts 0 (safe_integral_T_err (42 :: 32 word) True)"
  using comparisons_with_poisoned [of "safe_integral_T_err (42 :: 32 word) True"
      "safe_integral_T_err (42 :: 32 word) True" True 0]
  by (simp add: failure_def safe_integral_T_err_def)

subsection \<open>Bitwise operators\<close>

text \<open>
  Claim C7.  For the operators \<open>&\<close>, \<open>|\<close> and \<open>^\<close> (declared for an unsigned \<open>T\<close>
  only), in the compound and in the free form: the result has its error flag set
  exactly when one of the operands has, whatever the bits are, and its stored
  value is the bit operation applied to the \<open>get()\<close> of the two operands.
\<close>

theorem bitwise_poison_is_or:
  "failure (and_assign a b) = (failure a \<or> failure b) \<and> m_val (and_assign a b) = get a AND get b
   \<and> failure (or_assign a b) = (failure a \<or> failure b) \<and> m_val (or_assign a b) = get a OR get b
   \<and> failure (xor_assign a b) = (failure a \<or> failure b) \<and> m_val (xor_assign a b) = get a XOR get b
   \<and> op_and a b = and_assign a b \<and> op_or a b = or_assign a b \<and> op_xor a b = xor_assign a b"
  by (simp add: and_assign_def or_assign_def xor_assign_def op_and_def op_or_def op_xor_def
      safe_integral_T_err_def failure_def Let_def)

theorem bitwise_poison_is_or_witness:
  "failure (op_and (safe_integral_T_err (12 :: 8 word) True) (safe_integral_T 10))
   \<and> m_val (op_and (safe_integral_T_err (12 :: 8 word) True) (safe_integral_T 10)) = 0
   \<and> \<not> failure (op_xor (safe_integral_T (12 :: 8 word)) (safe_integral_T 10))
   \<and> m_val (op_xor (safe_integral_T (12 :: 8 word)) (safe_integral_T 10)) = 6"
  using bitwise_poison_is_or [of "safe_integral_T_err (12 :: 8 word) True" "safe_integral_T 10"]
    bitwise_poison_is_or [of "safe_integral_T (12 :: 8 word)" "safe_integral_T 10"]
  by (simp add: failure_def get_def safe_integral_T_def safe_integral_T_err_def)

subsection \<open>Addition, subtraction, multiplication\<close>

lemma add_assign_eq:
  fixes a b :: "'a::len word safe_integral"
  shows "add_assign ce sg a b =
     (if ce \<and> \<not> representable sg TYPE('a) (value_of sg (m_val a) + value_of sg (m_val b))
      then None
      else Some \<lparr>m_val = word_of_int (value_of sg (m_val a) + value_of sg (m_val b)),
                 m_error = (m_error a
                   \<or> \<not> representable sg TYPE('a) (value_of sg (m_val a) + value_of sg (m_val b))
                   \<or> m_error b)\<rparr>)"
  by (simp add: add_assign_def builtin_add_overflow_eq failure_def)

lemma sub_assign_eq:
  fixes a b :: "'a::len word safe_integral"
  shows "sub_assign ce sg a b =
     (if ce \<and> \<not> representable sg TYPE('a) (value_of sg (m_val a) - value_of sg (m_val b))
      then None
      else Some \<lparr>m_val = word_of_int (value_of sg (m_val a) - value_of sg (m_val b)),
                 m_error = (m_error a
                   \<or> \<not> representable sg TYPE('a) (value_of sg (m_val a) - value_of sg (m_val b))
                   \<or> m_error b)\<rparr>)"
  by (simp add: sub_assign_def builtin_sub_overflow_eq failure_def)

lemma mul_assign_eq:
  fixes a b :: "'a::len word safe_integral"
  shows "mul_assign ce sg a b =
     (if ce \<and> \<not> representable sg TYPE('a) (value_of sg (m_val a) * value_of sg (m_val b))
      then None
      else Some \<lparr>m_val = word_of_int (value_of sg (m_val a) * value_of sg (m_val b)),
                 m_error = (m_error a
                   \<or> \<not> representable sg TYPE('a) (value_of sg (m_val a) * value_of sg (m_val b))
                   \<or> m_error b)\<rparr>)"
  by (simp add: mul_assign_def builtin_mul_overflow_eq failure_def)

lemma op_add_exact:
  fixes a b :: "'a::len word safe_integral"
  assumes "\<not> failure a" "\<not> failure b"
  shows "\<exists>r. op_add False sg a b = Some r \<and> add_assign False sg a b = Some r
      \<and> failure r = (\<not> representable sg TYPE('a) (value_of sg (get a) + value_of sg (get b)))
      \<and> (\<not> failure r \<longrightarrow> value_of sg (get r) = value_of sg (get a) + value_of sg (get b))"
  using assms
  by (simp add: op_add_def add_assign_eq failure_def get_def representable_iff)

lemma op_sub_exact:
  fixes a b :: "'a::len word safe_integral"
  assumes "\<not> failure a" "\<not> failure b"
  shows "\<exists>r. op_sub False sg a b = Some r \<and> sub_assign False sg a b = Some r
      \<and> failure r = (\<not> representable sg TYPE('a) (value_of sg (get a) - value_of sg (get b)))
      \<and> (\<not> failure r \<longrightarrow> value_of sg (get r) = value_of sg (get a) - value_of sg (get b))"
  using assms
  by (simp add: op_sub_def sub_assign_eq failure_def get_def representable_iff)

lemma op_mul_exact:
  fixes a b :: "'a::len word safe_integral"
  assumes "\<not> failure a" "\<not> failure b"
  shows "\<exists>r. op_mul False sg a b = Some r \<and> mul_assign False sg a b = Some r
      \<and> failure r = (\<not> representable sg TYPE('a) (value_of sg (get a) * value_of sg (get b)))
      \<and> (\<not> failure r \<longrightarrow> value_of sg (get r) = value_of sg (get a) * value_of sg (get b))"
  using assms
  by (simp add: op_mul_def mul_assign_eq failure_def get_def representable_iff)

lemma int8_examples:
  "op_add False True (safe_integral_T (127 :: 8 word)) (safe_integral_T 1)
     = Some \<lparr>m_val = - 128, m_error = True\<rparr>"
  "op_add False True (safe_integral_T (127 :: 8 word)) (safe_integral_T 0)
     = Some \<lparr>m_val = 127, m_error = False\<rparr>"
  "op_sub False True (safe_integral_T (- 128 :: 8 word)) (safe_integral_T 1)
     = Some \<lparr>m_val = 127, m_error = True\<rparr>"
  by (simp_all add: op_add_def op_sub_def add_assign_eq sub_assign_eq safe_integral_T_def
      representable_def value_of_def min_si_def max_si_def
      numeric_limits_min_def numeric_limits_max_def)

text \<open>
  Claim C5.  At run time, on operands without error, \<open>+\<close>, \<open>-\<close> and \<open>*\<close> (free
  and compound) return a result whose error flag is set exactly when the exact
  sum, difference or product is not representable in \<open>T\<close>, and that otherwise
  holds the exact result.  For \<open>T = int8\<close>: \<open>127 + 1\<close> has the flag, \<open>127 + 0\<close>
  has not, \<open>-128 - 1\<close> has.
\<close>

theorem overflow_detection_exact:
  fixes a b :: "'a::len word safe_integral"
  shows
  "(\<not> failure a \<and> \<not> failure b \<longrightarrow>
      (\<exists>r. op_add False sg a b = Some r \<and> add_assign False sg a b = Some r
         \<and> failure r = (\<not> representable sg TYPE('a) (value_of sg (get a) + value_of sg (get b)))
         \<and> (\<not> failure r \<longrightarrow> value_of sg (get r) = value_of sg (get a) + value_of sg (get b)))
      \<and> (\<exists>r. op_sub False sg a b = Some r \<and> sub_assign False sg a b = Some r
         \<and> failure r = (\<not> representable sg TYPE('a) (value_of sg (get a) - value_of sg (get b)))
         \<and> (\<not> failure r \<longrightarrow> value_of sg (get r) = value_of sg (get a) - value_of sg (get b)))
      \<and> (\<exists>r. op_mul False sg a b = Some r \<and> mul_assign False sg a b = Some r
         \<and> failure r = (\<not> representable sg TYPE('a) (value_of sg (get a) * value_of sg (get b)))
         \<and> (\<not> failure r \<longrightarrow> value_of sg (get r) = value_of sg (get a) * value_of sg (get b))))
   \<and> op_add False True (safe_integral_T (127 :: 8 word)) (safe_integral_T 1)
       = Some \<lparr>m_val = - 128, m_error = True\<rparr>
   \<and> op_add False True (safe_integral_T (127 :: 8 word)) (safe_integral_T 0)
       = Some \<lparr>m_val = 127, m_error = False\<rparr>
   \<and> op_sub False True (safe_integral_T (- 128 :: 8 word)) (safe_integral_T 1)
       = Some \<lparr>m_val = 127, m_error = True\<rparr>"
  using op_add_exact [of a b sg] op_sub_exact [of a b sg] op_mul_exact [of a b sg] int8_examples
  by blast

theorem overflow_detection_exact_witness:
  "\<not> failure (safe_integral_T (100 :: 8 word)) \<and> \<not> failure (safe_integral_T (27 :: 8 word))
   \<and> representable True TYPE(8) 127 \<and> \<not> representable True TYPE(8) 128
   \<and> \<not> representable True TYPE(8) 2700 \<and> representable False TYPE(8) 128
   \<and> (\<exists>r. op_add False True (safe_integral_T (100 :: 8 word)) (safe_integral_T 27) = Some r
          \<and> \<not> failure r \<and> value_of True (get r) = 127)
   \<and> (\<exists>r. op_mul False True (safe_integral_T (100 :: 8 word)) (safe_integral_T 27) = Some r
          \<and> failure r)"
proof -
  have r: "representable True TYPE(8) 127" "\<not> representable True TYPE(8) 128"
    "\<not> representable True TYPE(8) 2700" "representable False TYPE(8) 128"
    by (simp_all add: representable_def value_of_min_si value_of_max_si)
  have v: "value_of True (100 :: 8 word) = 100" "value_of True (27 :: 8 word) = 27"
    by (simp_all add: value_of_def)
  have g: "get (safe_integral_T (100 :: 8 word)) = 100" "get (safe_integral_T (27 :: 8 word)) = 27"
    "\<not> failure (safe_integral_T (100 :: 8 word))" "\<not> failure (safe_integral_T (27 :: 8 word))"
    by (simp_all add: get_def safe_integral_T_def failure_def)
  show ?thesis
    using overflow_detection_exact [of "safe_integral_T (100 :: 8 word)" "safe_integral_T 27"
        True] r v g
    by auto
qed

text \<open>
  In a constant evaluation the same operations have the run-time result when
  the exact result is representable, and no value when it is not.
\<close>

lemma add_sub_mul_constant_evaluated:
  fixes a b :: "'a::len word safe_integral"
  shows "add_assign True sg a b =
      (if representable sg TYPE('a) (value_of sg (m_val a) + value_of sg (m_val b))
       then add_assign False sg a b else None)"
    and "sub_assign True sg a b =
      (if representable sg TYPE('a) (value_of sg (m_val a) - value_of sg (m_val b))
       then sub_assign False sg a b else None)"
    and "mul_assign True sg a b =
      (if representable sg TYPE('a) (value_of sg (m_val a) * value_of sg (m_val b))
       then mul_assign False sg a b else None)"
  by (simp_all add: add_assign_eq sub_assign_eq mul_assign_eq)

lemma int8_overflow_constant_evaluated:
  "op_add True True (safe_integral_T (127 :: 8 word)) (safe_integral_T 1) = None"
  by (simp add: op_add_def add_assign_eq safe_integral_T_def
      representable_def value_of_def min_si_def max_si_def
      numeric_limits_min_def numeric_limits_max_def)

subsection \<open>Division and remainder\<close>

text \<open>\<open>-one()\<close> is the value \<open>-1\<close>, without error.\<close>

lemma neg_one_eq:
  assumes "1 < LENGTH('a::len)"
  shows "op_neg ce (one_si False) = Some \<lparr>m_val = - 1 :: 'a word, m_error = False\<rparr>"
proof -
  have "(- 1 :: int) < 0" and "(0 :: int) < 2 ^ (LENGTH('a) - 1)"
    by simp_all
  then have "(- 1 :: int) < 2 ^ (LENGTH('a) - 1)"
    by (rule less_trans)
  then have "representable True TYPE('a) (- 1)"
    by (simp add: representable_def value_of_min_si value_of_max_si)
  moreover have "sint (1 :: 'a word) = 1"
    using assms by (simp add: signed_1)
  ultimately show ?thesis
    by (simp add: op_neg_def op_sub_def sub_assign_eq zero_si_def one_si_def
        safe_integral_T_err_def value_of_def)
qed

lemma div_assign_guarded:
  fixes a b :: "'a::len word safe_integral"
  assumes "1 < LENGTH('a)"
    and "failure a \<or> failure b \<or> get b = 0 \<or> (sg \<and> m_val a = min_si sg \<and> m_val b = - 1)"
  shows "div_assign False sg a b = Some (a\<lparr>m_error := True\<rparr>)"
  using assms(2)
  by (auto simp add: div_assign_def op_eq_def zero_si_def safe_integral_T_err_def failure_def
      get_def integral_overflow_underflow_wrap_error_def is_signed_type_def
      neg_one_eq [OF assms(1)])

lemma mod_assign_guarded:
  fixes a b :: "'a::len word safe_integral"
  assumes "1 < LENGTH('a)"
    and "failure a \<or> failure b \<or> get b = 0 \<or> (sg \<and> m_val a = min_si sg \<and> m_val b = - 1)"
  shows "mod_assign False sg a b = Some (a\<lparr>m_error := True\<rparr>)"
  using assms(2)
  by (auto simp add: mod_assign_def op_eq_def op_eq_sT_def zero_si_def safe_integral_T_err_def
      failure_def get_def integral_overflow_underflow_wrap_error_def is_signed_type_def
      neg_one_eq [OF assms(1)])

text \<open>
  Claim C3.  At run time \<open>/=\<close>, \<open>%=\<close> and the free \<open>/\<close> and \<open>%\<close>, in all their
  overloads, return the left operand with its error flag set and \<open>m_val\<close> as it was, so without
  the division of the language, when an operand has its error flag set, when
  the divisor is \<open>0\<close>, and when \<open>T\<close> is signed, the dividend is \<open>min()\<close> and the
  divisor is \<open>-1\<close>; \<open>get()\<close> of that result is \<open>0\<close>.  \<open>T\<close> has more than one bit.
\<close>

theorem division_poisons_without_dividing:
  fixes a b :: "'a::len word safe_integral"
  assumes "1 < LENGTH('a)"
  shows
  "(failure a \<or> failure b \<or> get b = 0 \<or> (sg \<and> m_val a = min_si sg \<and> m_val b = - 1) \<longrightarrow>
      div_assign False sg a b = Some (a\<lparr>m_error := True\<rparr>)
      \<and> mod_assign False sg a b = Some (a\<lparr>m_error := True\<rparr>)
      \<and> op_div False sg a b = Some (a\<lparr>m_error := True\<rparr>)
      \<and> op_mod False sg a b = Some (a\<lparr>m_error := True\<rparr>))
   \<and> (failure a \<or> v = 0 \<or> (sg \<and> m_val a = min_si sg \<and> v = - 1) \<longrightarrow>
      div_assign_T False sg a v = Some (a\<lparr>m_error := True\<rparr>)
      \<and> mod_assign_T False sg a v = Some (a\<lparr>m_error := True\<rparr>)
      \<and> op_div_sT False sg a v = Some (a\<lparr>m_error := True\<rparr>)
      \<and> op_mod_sT False sg a v = Some (a\<lparr>m_error := True\<rparr>))
   \<and> (failure b \<or> get b = 0 \<or> (sg \<and> v = min_si sg \<and> m_val b = - 1) \<longrightarrow>
      op_div_Ts False sg v b = Some \<lparr>m_val = v, m_error = True\<rparr>
      \<and> op_mod_Ts False sg v b = Some \<lparr>m_val = v, m_error = True\<rparr>)
   \<and> failure (a\<lparr>m_error := True\<rparr>) \<and> get (a\<lparr>m_error := True\<rparr>) = 0
   \<and> m_val (a\<lparr>m_error := True\<rparr>) = m_val a"
proof -
  have 1: "failure a \<or> failure b \<or> get b = 0 \<or> (sg \<and> m_val a = min_si sg \<and> m_val b = - 1) \<longrightarrow>
      div_assign False sg a b = Some (a\<lparr>m_error := True\<rparr>)
      \<and> mod_assign False sg a b = Some (a\<lparr>m_error := True\<rparr>)
      \<and> op_div False sg a b = Some (a\<lparr>m_error := True\<rparr>)
      \<and> op_mod False sg a b = Some (a\<lparr>m_error := True\<rparr>)"
    using div_assign_guarded [OF assms, of a b sg] mod_assign_guarded [OF assms, of a b sg]
    by (simp add: op_div_def op_mod_def)
  have 2: "failure a \<or> v = 0 \<or> (sg \<and> m_val a = min_si sg \<and> v = - 1) \<longrightarrow>
      div_assign_T False sg a v = Some (a\<lparr>m_error := True\<rparr>)
      \<and> mod_assign_T False sg a v = Some (a\<lparr>m_error := True\<rparr>)
      \<and> op_div_sT False sg a v = Some (a\<lparr>m_error := True\<rparr>)
      \<and> op_mod_sT False sg a v = Some (a\<lparr>m_error := True\<rparr>)"
    using div_assign_guarded [OF assms, of a "safe_integral_T v" sg]
      mod_assign_guarded [OF assms, of a "safe_integral_T v" sg]
    by (auto simp add: op_div_def op_mod_def op_div_sT_def op_mod_sT_def div_assign_T_def
        mod_assign_T_def safe_integral_T_def get_def failure_def)
  have 3: "failure b \<or> get b = 0 \<or> (sg \<and> v = min_si sg \<and> m_val b = - 1) \<longrightarrow>
      op_div_Ts False sg v b = Some \<lparr>m_val = v, m_error = True\<rparr>
      \<and> op_mod_Ts False sg v b = Some \<lparr>m_val = v, m_error = True\<rparr>"
    using div_assign_guarded [OF assms, of "safe_integral_T v" b sg]
      mod_assign_guarded [OF assms, of "safe_integral_T v" b sg]
    by (auto simp add: op_div_def op_mod_def op_div_Ts_def op_mod_Ts_def
        safe_integral_T_def get_def failure_def)
  have 4: "failure (a\<lparr>m_error := True\<rparr>) \<and> get (a\<lparr>m_error := True\<rparr>) = 0
      \<and> m_val (a\<lparr>m_error := True\<rparr>) = m_val a"
    by (simp add: failure_def get_def)
  from 1 2 3 4 show ?thesis by blast
qed

text \<open>What the division of the language would have been at the guarded operands.\<close>

lemma native_div_undefined:
  "native_div sg x 0 = None"
  "native_mod sg x 0 = None"
  "native_div True (min_si True :: 32 word) (- 1) = None"
  "native_mod True (min_si True :: 32 word) (- 1) = None"
  by (simp_all add: native_div_def native_mod_def native_arith_def int_bits_def value_of_def
      min_si_def numeric_limits_min_def)

theorem division_poisons_without_dividing_witness:
  "1 < LENGTH(32)
   \<and> native_div True (min_si True :: 32 word) (- 1) = None
   \<and> op_div False True (safe_integral_T (min_si True :: 32 word)) (safe_integral_T (- 1))
       = Some \<lparr>m_val = min_si True, m_error = True\<rparr>
   \<and> op_mod_sT False True (safe_integral_T (min_si True :: 32 word)) (- 1)
       = Some \<lparr>m_val = min_si True, m_error = True\<rparr>
   \<and> op_div_Ts False False (10 :: 32 word) (safe_integral_T 0)
       = Some \<lparr>m_val = 10, m_error = True\<rparr>"
  using division_poisons_without_dividing [where 'a = 32 and a = "safe_integral_T (min_si True)"
      and b = "safe_integral_T (- 1)" and sg = True and v = "- 1"]
    division_poisons_without_dividing [where 'a = 32 and a = "safe_integral_T 10"
      and b = "safe_integral_T 0" and sg = False and v = "10"]
    native_div_undefined(3)
  by (simp add: safe_integral_T_def get_def failure_def)

text \<open>
  In a constant evaluation an operand with its error flag set still gives the
  poisoned result, while the guards for the zero divisor and for \<open>min() / -1\<close>
  call \<open>integral_overflow_underflow_wrap_error()\<close> and have no value.
\<close>

lemma div_mod_assign_poisoned:
  assumes "failure a \<or> failure b"
  shows "div_assign ce sg a b = Some (a\<lparr>m_error := True\<rparr>)"
    and "mod_assign ce sg a b = Some (a\<lparr>m_error := True\<rparr>)"
  using assms by (simp_all add: div_assign_def mod_assign_def)

lemma div_mod_assign_constant_evaluated:
  fixes a b :: "'a::len word safe_integral"
  assumes "1 < LENGTH('a)" "\<not> failure a" "\<not> failure b"
    and "m_val b = 0 \<or> (sg \<and> m_val a = min_si sg \<and> m_val b = - 1)"
  shows "div_assign True sg a b = None" and "mod_assign True sg a b = None"
  using assms(2-4)
  by (auto simp add: div_assign_def mod_assign_def op_eq_def op_eq_sT_def zero_si_def
      safe_integral_T_err_def failure_def get_def integral_overflow_underflow_wrap_error_def
      is_signed_type_def neg_one_eq [OF assms(1)])

subsection \<open>Division outside the guards\<close>

lemma abs_sdiv_le: "\<bar>k sdiv l\<bar> \<le> \<bar>k\<bar> div \<bar>l\<bar>" for k l :: int
  by (simp add: signed_divide_int_def abs_mult abs_sgn_eq div_int_pos_iff)

lemma sint_eq_min_iff:
  "sint (x :: 'a::len word) = - (2 ^ (LENGTH('a) - 1)) \<longleftrightarrow> x = min_si True"
proof
  assume "sint x = - (2 ^ (LENGTH('a) - 1))"
  then have "sint x = sint (min_si True :: 'a word)"
    using value_of_min_si [of True, where 'a = 'a] by (simp add: value_of_def)
  then show "x = min_si True"
    by (simp add: signed_word_eqI)
next
  assume "x = min_si True"
  then show "sint x = - (2 ^ (LENGTH('a) - 1))"
    using value_of_min_si [of True, where 'a = 'a] by (simp add: value_of_def)
qed

lemma sint_eq_minus_one_iff: "sint (y :: 'a::len word) = - 1 \<longleftrightarrow> y = - 1"
  by (metis sint_n1 signed_word_eqI)

lemma sdiv_in_range:
  fixes k l :: int
  assumes k: "- (2 ^ n) \<le> k" "k < 2 ^ n" and l: "l \<noteq> 0" and e: "\<not> (k = - (2 ^ n) \<and> l = - 1)"
  shows "- (2 ^ n) \<le> k sdiv l \<and> k sdiv l < 2 ^ n"
proof (cases "k = - (2 ^ n)")
  case False
  with k have "\<bar>k\<bar> < 2 ^ n" by simp
  moreover have "\<bar>k\<bar> div \<bar>l\<bar> \<le> \<bar>k\<bar>"
    by (metis abs_ge_zero div_by_1 l linorder_not_le pos_imp_zdiv_neg_iff zdiv_mono2 zero_less_abs_iff zero_less_one_class.zero_less_one int_one_le_iff_zero_less)
  ultimately have "\<bar>k sdiv l\<bar> < 2 ^ n"
    using abs_sdiv_le [of k l] by linarith
  then show ?thesis by linarith
next
  case True
  with e have l1: "l \<noteq> - 1" by simp
  show ?thesis
  proof (cases "l = 1")
    case True
    with k show ?thesis by simp
  next
    case False
    with l l1 have "2 \<le> \<bar>l\<bar>" by linarith
    then have "\<bar>k\<bar> div \<bar>l\<bar> \<le> \<bar>k\<bar> div 2"
      by (simp add: zdiv_mono2)
    moreover have "\<bar>k\<bar> div 2 < (2 ^ n :: int)"
      using True by (simp add: int_div_less_self)
    ultimately have "\<bar>k sdiv l\<bar> < 2 ^ n"
      using abs_sdiv_le [of k l] by linarith
    then show ?thesis by linarith
  qed
qed


lemma native_arith_narrow:
  assumes "- (2 ^ (LENGTH('a::len) - 1)) \<le> r" "r < 2 ^ LENGTH('a)"
  shows "native_arith sg r = Some (word_of_int r :: 'a word) \<or> (sg \<and> 2 ^ (LENGTH('a) - 1) \<le> r)"
proof (cases "LENGTH('a) < int_bits")
  case True
  then have "LENGTH('a) \<le> 31" and "LENGTH('a) - 1 \<le> 31"
    by (simp_all add: int_bits_def)
  then have "(2 :: int) ^ LENGTH('a) \<le> 2 ^ 31" and "(2 :: int) ^ (LENGTH('a) - 1) \<le> 2 ^ 31"
    using power_increasing [of "LENGTH('a)" 31 "2 :: int"]
      power_increasing [of "LENGTH('a) - 1" 31 "2 :: int"]
    by linarith+
  with assms have "- (2 ^ 31) \<le> r" and "r < 2 ^ 31"
    by linarith+
  with True show ?thesis
    by (simp add: native_arith_def int_bits_def)
next
  case False
  with assms show ?thesis
    by (auto simp add: native_arith_def)
qed

lemma native_div_defined:
  fixes x y :: "'a::len word"
  assumes "y \<noteq> 0" "\<not> (sg \<and> x = min_si sg \<and> y = - 1)"
  shows "native_div sg x y = Some (word_of_int (value_of sg x sdiv value_of sg y))"
proof (cases sg)
  case True
  have "sint y \<noteq> 0"
    using assms(1) by (metis sint_0 signed_word_eqI)
  moreover have "\<not> (x = min_si True \<and> y = - 1)"
    using assms(2) True by simp
  then have "\<not> (sint x = - (2 ^ (LENGTH('a) - 1)) \<and> sint y = - 1)"
    unfolding sint_eq_min_iff sint_eq_minus_one_iff .
  ultimately have q: "- (2 ^ (LENGTH('a) - 1)) \<le> sint x sdiv sint y
      \<and> sint x sdiv sint y < 2 ^ (LENGTH('a) - 1)"
    using sdiv_in_range [of "LENGTH('a) - 1" "sint x" "sint y"] sint_ge [of x] sint_lt [of x]
    by blast
  moreover have "(2 :: int) ^ (LENGTH('a) - 1) \<le> 2 ^ LENGTH('a)"
    using power_increasing [of "LENGTH('a) - 1" "LENGTH('a)" "2 :: int"] by linarith
  ultimately have "native_arith True (sint x sdiv sint y)
      = Some (word_of_int (sint x sdiv sint y) :: 'a word)"
    using native_arith_narrow [of "sint x sdiv sint y", where 'a = 'a and sg = True] by linarith
  with True assms(1) show ?thesis
    by (simp add: native_div_def value_of_def)
next
  case False
  have p: "0 < uint y"
    using assms(1) by (simp add: word_greater_zero_iff uint_0_iff order_less_le)
  then have q: "0 \<le> uint x div uint y" "uint x div uint y \<le> uint x"
    using zdiv_mono2 [of "uint x" 1 "uint y"] by (simp_all add: pos_imp_zdiv_nonneg_iff)
  have "(0 :: int) < 2 ^ (LENGTH('a) - 1)"
    by simp
  with q(1) have lo: "- (2 ^ (LENGTH('a) - 1)) \<le> uint x div uint y"
    by linarith
  have "uint x < 2 ^ LENGTH('a)"
    by simp
  with q(2) have hi: "uint x div uint y < 2 ^ LENGTH('a)"
    by linarith
  have s: "uint x sdiv uint y = uint x div uint y"
    using p by (cases "uint x = 0") (simp_all add: signed_divide_int_def sgn_if)
  have "native_arith False (uint x div uint y) = Some (word_of_int (uint x div uint y) :: 'a word)"
    using native_arith_narrow [OF lo hi, of False] by simp
  with False assms(1) s show ?thesis
    by (simp add: native_div_def value_of_def)
qed


text \<open>
  Outside the three guarded cases the division of the language is defined, and
  it is what \<open>/=\<close> and \<open>%=\<close> store; the error flag stays as it was.
\<close>

lemma div_mod_assign_performed:
  fixes a b :: "'a::len word safe_integral"
  assumes w: "1 < LENGTH('a)"
    and ok: "\<not> failure a" "\<not> failure b"
    and nz: "m_val b \<noteq> 0"
    and ne: "\<not> (sg \<and> m_val a = min_si sg \<and> m_val b = - 1)"
  shows "div_assign ce sg a b =
      Some (a\<lparr>m_val := word_of_int (value_of sg (m_val a) sdiv value_of sg (m_val b))\<rparr>)"
    and "mod_assign ce sg a b =
      Some (a\<lparr>m_val := word_of_int (value_of sg (m_val a) smod value_of sg (m_val b))\<rparr>)"
proof -
  have d: "native_div sg (m_val a) (m_val b) =
      Some (word_of_int (value_of sg (m_val a) sdiv value_of sg (m_val b)))"
    using nz ne by (rule native_div_defined)
  then have m: "native_mod sg (m_val a) (m_val b) =
      Some (word_of_int (value_of sg (m_val a) smod value_of sg (m_val b)))"
    by (simp add: native_mod_def)
  have z: "\<not> op_eq (zero_si False) b"
    using ok nz by (auto simp add: op_eq_def zero_si_def safe_integral_T_err_def get_def failure_def)
  show "div_assign ce sg a b =
      Some (a\<lparr>m_val := word_of_int (value_of sg (m_val a) sdiv value_of sg (m_val b))\<rparr>)"
    using ok z ne d
    by (auto simp add: div_assign_def is_signed_type_def neg_one_eq [OF w] op_eq_def get_def
        failure_def)
  show "mod_assign ce sg a b =
      Some (a\<lparr>m_val := word_of_int (value_of sg (m_val a) smod value_of sg (m_val b))\<rparr>)"
    using ok z ne m
    by (auto simp add: mod_assign_def is_signed_type_def neg_one_eq [OF w] op_eq_sT_def get_def
        failure_def)
qed

text \<open>
  At run time every compound assignment returns: no operand reaches undefined
  behaviour.
\<close>

lemma compound_assign_returns:
  fixes a b :: "'a::len word safe_integral"
  assumes "1 < LENGTH('a)"
  shows "\<exists>r. compound_assign op False sg a b = Some r"
proof (cases "op = Div \<or> op = Mod")
  case False
  then show ?thesis
    by (cases op) (simp_all add: add_assign_eq sub_assign_eq mul_assign_eq)
next
  case True
  show ?thesis
  proof (cases "failure a \<or> failure b \<or> get b = 0
      \<or> (sg \<and> m_val a = min_si sg \<and> m_val b = - 1)")
    case True
    with \<open>op = Div \<or> op = Mod\<close> div_assign_guarded [OF assms, of a b sg]
      mod_assign_guarded [OF assms, of a b sg]
    show ?thesis by auto
  next
    case False
    then have "\<not> failure a" "\<not> failure b" "m_val b \<noteq> 0"
      "\<not> (sg \<and> m_val a = min_si sg \<and> m_val b = - 1)"
      by (auto simp add: get_def failure_def)
    with \<open>op = Div \<or> op = Mod\<close> div_mod_assign_performed [OF assms, of a b sg False]
    show ?thesis by auto
  qed
qed

subsection \<open>Free operators and compound assignment\<close>

lemma compound_assign_T_eq:
  "compound_assign_T op ce sg a v = compound_assign op ce sg a (safe_integral_T v)"
  by (cases op)
    (simp_all add: add_assign_def add_assign_T_def sub_assign_def sub_assign_T_def
      mul_assign_def mul_assign_T_def div_assign_T_def mod_assign_T_def
      safe_integral_T_def failure_def)

lemma binary_op_eq: "binary_op op ce sg a b = compound_assign op ce sg a b"
  by (cases op) (simp_all add: op_add_def op_sub_def op_mul_def op_div_def op_mod_def)

lemma binary_op_sT_eq:
  "binary_op_sT op ce sg a v = compound_assign op ce sg a (safe_integral_T v)"
  by (cases op)
    (simp_all add: op_add_sT_def op_sub_sT_def op_mul_sT_def op_div_sT_def op_mod_sT_def
      op_add_def op_sub_def op_mul_def op_div_def op_mod_def)

lemma binary_op_Ts_eq:
  "binary_op_Ts op ce sg v b = compound_assign op ce sg (safe_integral_T v) b"
  by (cases op)
    (simp_all add: op_add_Ts_def op_sub_Ts_def op_mul_Ts_def op_div_Ts_def op_mod_Ts_def
      op_add_def op_sub_def op_mul_def op_div_def op_mod_def)

lemma binary_op_at_eq:
  assumes "tmp \<noteq> lhs" "tmp \<noteq> rhs"
  shows "binary_op_at op ce sg tmp lhs rhs s =
     map_option (\<lambda>r. (r, s(tmp := r))) (compound_assign op ce sg (s lhs) (s rhs))"
  using assms
  by (cases "compound_assign op ce sg (s lhs) (s rhs)")
    (simp_all add: binary_op_at_def compound_assign_at_def)



lemma binary_op_at_frame:
  assumes "tmp \<noteq> lhs" "tmp \<noteq> rhs" "binary_op_at op ce sg tmp lhs rhs s = Some (r, s')"
  shows "s' lhs = s lhs \<and> s' rhs = s rhs \<and> (\<forall>x. x \<noteq> tmp \<longrightarrow> s' x = s x)
     \<and> binary_op op ce sg (s lhs) (s rhs) = Some r"
proof -
  have "map_option (\<lambda>r. (r, s(tmp := r))) (compound_assign op ce sg (s lhs) (s rhs))
      = Some (r, s')"
    using binary_op_at_eq [OF assms(1,2), of op ce sg s] assms(3) by simp
  then have "compound_assign op ce sg (s lhs) (s rhs) = Some r" and "s' = s(tmp := r)"
    by auto
  with assms(1,2) show ?thesis
    by (simp add: binary_op_eq)
qed

text \<open>
  Claim C8.  For each of \<open>+ - * / %\<close>: \<open>a op b\<close> is the compound assignment
  applied to a copy of \<open>a\<close> with \<open>b\<close>; \<open>a op rawB\<close> is the same with the raw
  operand (equally, with the \<open>safe_integral\<close> made from it); \<open>rawA op b\<close> is the
  compound assignment applied to the \<open>safe_integral\<close> made from \<open>rawA\<close>.  Run on
  operands behind references, with the copy at an address \<open>tmp\<close> of its own, the
  operator changes the store at \<open>tmp\<close> only: both operands keep their value and
  their error flag (also when they are one object).
\<close>

theorem binary_operators_copy_then_assign:
  "binary_op op ce sg a b = compound_assign op ce sg a b
   \<and> binary_op_sT op ce sg a v = compound_assign_T op ce sg a v
   \<and> binary_op_sT op ce sg a v = binary_op op ce sg a (safe_integral_T v)
   \<and> binary_op_Ts op ce sg v b = compound_assign op ce sg (safe_integral_T v) b
   \<and> (tmp \<noteq> lhs \<and> tmp \<noteq> rhs \<longrightarrow>
        binary_op_at op ce sg tmp lhs rhs s =
          map_option (\<lambda>r. (r, s(tmp := r))) (compound_assign op ce sg (s lhs) (s rhs)))
   \<and> (tmp \<noteq> lhs \<and> tmp \<noteq> rhs \<and> binary_op_at op ce sg tmp lhs rhs s = Some (r, s') \<longrightarrow>
        s' lhs = s lhs \<and> s' rhs = s rhs \<and> (\<forall>x. x \<noteq> tmp \<longrightarrow> s' x = s x)
        \<and> binary_op op ce sg (s lhs) (s rhs) = Some r)"
proof (intro conjI impI)
  show "binary_op op ce sg a b = compound_assign op ce sg a b"
    by (rule binary_op_eq)
  show "binary_op_sT op ce sg a v = compound_assign_T op ce sg a v"
    by (simp only: binary_op_sT_eq compound_assign_T_eq)
  show "binary_op_sT op ce sg a v = binary_op op ce sg a (safe_integral_T v)"
    by (simp only: binary_op_sT_eq binary_op_eq)
  show "binary_op_Ts op ce sg v b = compound_assign op ce sg (safe_integral_T v) b"
    by (rule binary_op_Ts_eq)
next
  assume "tmp \<noteq> lhs \<and> tmp \<noteq> rhs"
  then have "tmp \<noteq> lhs" and "tmp \<noteq> rhs"
    by simp_all
  then show "binary_op_at op ce sg tmp lhs rhs s =
      map_option (\<lambda>r. (r, s(tmp := r))) (compound_assign op ce sg (s lhs) (s rhs))"
    by (rule binary_op_at_eq)
next
  assume h: "tmp \<noteq> lhs \<and> tmp \<noteq> rhs \<and> binary_op_at op ce sg tmp lhs rhs s = Some (r, s')"
  then have f: "s' lhs = s lhs \<and> s' rhs = s rhs \<and> (\<forall>x. x \<noteq> tmp \<longrightarrow> s' x = s x)
     \<and> binary_op op ce sg (s lhs) (s rhs) = Some r"
    using binary_op_at_frame [of tmp lhs rhs op ce sg s r s'] by blast
  from f show "s' lhs = s lhs" by blast
  from f show "s' rhs = s rhs" by blast
  from f show "\<forall>x. x \<noteq> tmp \<longrightarrow> s' x = s x" by blast
  from f show "binary_op op ce sg (s lhs) (s rhs) = Some r" by blast
qed

theorem binary_operators_copy_then_assign_witness:
  "(0::nat) \<noteq> 1 \<and> (0::nat) \<noteq> 2
   \<and> binary_op_at Div False True 0 1 2
        ((\<lambda>x. safe_integral_T (2 :: 8 word))(1 := safe_integral_T (- 7)))
      = Some (\<lparr>m_val = - 3, m_error = False\<rparr>,
          ((\<lambda>x. safe_integral_T (2 :: 8 word))(1 := safe_integral_T (- 7)))
            (0 := \<lparr>m_val = - 3, m_error = False\<rparr>))"
proof -
  let ?s = "(\<lambda>x::nat. safe_integral_T (2 :: 8 word))(1 := safe_integral_T (- 7))"
  have s: "?s 1 = safe_integral_T (- 7)" "?s 2 = safe_integral_T 2"
    by simp_all
  have d: "compound_assign Div False True (safe_integral_T (- 7 :: 8 word)) (safe_integral_T 2)
      = Some \<lparr>m_val = - 3, m_error = False\<rparr>"
    by code_simp
  have n: "(0::nat) \<noteq> 1 \<and> (0::nat) \<noteq> 2"
    by simp
  with binary_operators_copy_then_assign [of Div False True "?s 1" "?s 2" 2 0 1 2 ?s]
  have "binary_op_at Div False True 0 1 2 ?s =
      map_option (\<lambda>r. (r, ?s(0 := r))) (compound_assign Div False True (?s 1) (?s 2))"
    by blast
  then have "binary_op_at Div False True 0 1 2 ?s =
      Some (\<lparr>m_val = - 3, m_error = False\<rparr>, ?s(0 := \<lparr>m_val = - 3, m_error = False\<rparr>))"
    by (simp only: s d option.map)
  with n show ?thesis
    by blast
qed

subsection \<open>The error flag is sticky\<close>

lemma compound_assign_closed:
  fixes a b :: "'a::len word safe_integral"
  assumes "failure a \<or> failure b"
  shows "\<exists>r. compound_assign op False sg a b = Some r \<and> failure r"
proof (cases op)
  case Add
  with assms show ?thesis by (auto simp add: add_assign_eq failure_def)
next
  case Sub
  with assms show ?thesis by (auto simp add: sub_assign_eq failure_def)
next
  case Mul
  with assms show ?thesis by (auto simp add: mul_assign_eq failure_def)
next
  case Div
  with assms show ?thesis by (simp add: div_mod_assign_poisoned failure_def)
next
  case Mod
  with assms show ?thesis by (simp add: div_mod_assign_poisoned failure_def)
qed

text \<open>Where a constant evaluation has a value, the flag is kept there too.\<close>

lemma compound_assign_keeps:
  fixes a b :: "'a::len word safe_integral"
  assumes "failure a \<or> failure b" "compound_assign op ce sg a b = Some r"
  shows "failure r"
proof (cases op)
  case Add
  with assms show ?thesis by (auto simp add: add_assign_eq failure_def split: if_splits)
next
  case Sub
  with assms show ?thesis by (auto simp add: sub_assign_eq failure_def split: if_splits)
next
  case Mul
  with assms show ?thesis by (auto simp add: mul_assign_eq failure_def split: if_splits)
next
  case Div
  with assms div_mod_assign_poisoned(1) [of a b ce sg] show ?thesis
    by (auto simp add: failure_def)
next
  case Mod
  with assms div_mod_assign_poisoned(2) [of a b ce sg] show ?thesis
    by (auto simp add: failure_def)
qed

lemma inc_dec_closed:
  fixes a :: "'a::len word safe_integral"
  assumes "failure a"
  shows "\<exists>r. inc False sg a = Some r \<and> failure r"
    and "\<exists>r. dec False sg a = Some r \<and> failure r"
  using assms by (simp_all add: inc_def dec_def builtin_overflow_eq failure_def)

lemma inc_dec_keeps:
  fixes a :: "'a::len word safe_integral"
  assumes "failure a"
  shows "inc ce sg a = Some r \<Longrightarrow> failure r" and "dec ce sg a = Some r \<Longrightarrow> failure r"
  using assms
  by (auto simp add: inc_def dec_def builtin_overflow_eq failure_def split: if_splits)

lemma shift_closed:
  fixes a :: "'a::len word safe_integral"
  assumes "failure a" "bits < LENGTH('a)"
  shows "\<exists>r. shl_assign a bits = Some r \<and> failure r" and "\<exists>r. shr_assign a bits = Some r \<and> failure r"
  using assms
  by (simp_all add: shl_assign_def shr_assign_def native_shl_def native_shr_def get_def
      failure_def safe_integral_T_err_def)

lemma mutate_keeps_failure:
  fixes a :: "'a::len word safe_integral"
  assumes "failure a" "\<not> is_assign_T mu" "mutate ce sg mu a = Some r"
  shows "failure r"
proof (cases mu)
  case (Arith op rhs)
  with assms compound_assign_keeps [of a rhs op ce sg r] show ?thesis by auto
next
  case (Arith_T op rhs)
  with assms compound_assign_keeps [of a "safe_integral_T rhs" op ce sg r] show ?thesis
    by (auto simp add: compound_assign_T_eq)
next
  case Inc
  with assms inc_dec_keeps(1) [of a ce sg r] show ?thesis by auto
next
  case Dec
  with assms inc_dec_keeps(2) [of a ce sg r] show ?thesis by auto
next
  case (Shl_assign bits)
  with assms show ?thesis
    by (auto simp add: shl_assign_def failure_def safe_integral_T_err_def
        split: option.splits Option.bind_splits)
next
  case (Shr_assign bits)
  with assms show ?thesis
    by (auto simp add: shr_assign_def failure_def safe_integral_T_err_def
        split: option.splits Option.bind_splits)
qed (use assms in \<open>auto simp add: failure_def set_failure_def and_assign_def and_assign_T_def
      or_assign_def or_assign_T_def xor_assign_def xor_assign_T_def safe_integral_T_err_def Let_def\<close>)

lemma mutate_returns:
  fixes a :: "'a::len word safe_integral"
  assumes "failure a" "\<not> is_shift mu"
  shows "\<exists>r. mutate False sg mu a = Some r"
proof (cases mu)
  case (Arith op rhs)
  with assms compound_assign_closed [of a rhs op sg] show ?thesis by auto
next
  case (Arith_T op rhs)
  with assms compound_assign_closed [of a "safe_integral_T rhs" op sg] show ?thesis
    by (auto simp add: compound_assign_T_eq)
next
  case Inc
  with assms inc_dec_closed(1) [of a sg] show ?thesis by auto
next
  case Dec
  with assms inc_dec_closed(2) [of a sg] show ?thesis by auto
qed (use assms in auto)

text \<open>
  Claim C2.  At run time, if an operand has its error flag set, the result of
  every arithmetic operator exists and has it too: the free \<open>+ - * / %\<close> in their
  three overloads, the compound forms with a \<open>safe_integral\<close> and with a raw \<open>T\<close>,
  \<open>++\<close> and \<open>--\<close>.  No operation that changes an instance in place clears a flag
  that is set, be it arithmetic, bitwise, a shift or \<open>set_failure\<close>, at run time
  or in a constant evaluation that has a value; at run time the arithmetic and
  bitwise ones always return, the shifts do for a count below the width of \<open>T\<close>.
  The assignment from a raw \<open>T\<close> is the one that clears it.
\<close>

theorem poison_is_sticky:
  fixes a b :: "'a::len word safe_integral"
  shows
  "(failure a \<or> failure b \<longrightarrow>
      (\<exists>r. binary_op op False sg a b = Some r \<and> failure r)
      \<and> (\<exists>r. compound_assign op False sg a b = Some r \<and> failure r))
   \<and> (failure a \<longrightarrow>
      (\<exists>r. binary_op_sT op False sg a v = Some r \<and> failure r)
      \<and> (\<exists>r. compound_assign_T op False sg a v = Some r \<and> failure r)
      \<and> (\<exists>r. inc False sg a = Some r \<and> failure r)
      \<and> (\<exists>r. dec False sg a = Some r \<and> failure r))
   \<and> (failure b \<longrightarrow> (\<exists>r. binary_op_Ts op False sg v b = Some r \<and> failure r))
   \<and> (failure a \<and> \<not> is_assign_T mu \<longrightarrow> (\<forall>r. mutate ce sg mu a = Some r \<longrightarrow> failure r))
   \<and> (failure a \<and> \<not> is_shift mu \<longrightarrow> (\<exists>r. mutate False sg mu a = Some r))
   \<and> (failure a \<and> bits < LENGTH('a) \<longrightarrow>
      (\<exists>r. mutate ce sg (Shl_assign bits) a = Some r \<and> failure r)
      \<and> (\<exists>r. mutate ce sg (Shr_assign bits) a = Some r \<and> failure r))
   \<and> mutate ce sg (Assign_T v) a = Some (assign_T a v)
   \<and> \<not> failure (assign_T a v) \<and> get (assign_T a v) = v"
proof -
  have 1: "failure a \<or> failure b \<longrightarrow>
      (\<exists>r. binary_op op False sg a b = Some r \<and> failure r)
      \<and> (\<exists>r. compound_assign op False sg a b = Some r \<and> failure r)"
    using compound_assign_closed [of a b op sg] by (simp add: binary_op_eq)
  have 2: "failure a \<longrightarrow>
      (\<exists>r. binary_op_sT op False sg a v = Some r \<and> failure r)
      \<and> (\<exists>r. compound_assign_T op False sg a v = Some r \<and> failure r)
      \<and> (\<exists>r. inc False sg a = Some r \<and> failure r)
      \<and> (\<exists>r. dec False sg a = Some r \<and> failure r)"
    using compound_assign_closed [of a "safe_integral_T v" op sg] inc_dec_closed [of a sg]
    by (simp add: binary_op_sT_eq compound_assign_T_eq)
  have 3: "failure b \<longrightarrow> (\<exists>r. binary_op_Ts op False sg v b = Some r \<and> failure r)"
    using compound_assign_closed [of "safe_integral_T v" b op sg]
    by (simp add: binary_op_Ts_eq)
  have 4: "failure a \<and> \<not> is_assign_T mu \<longrightarrow> (\<forall>r. mutate ce sg mu a = Some r \<longrightarrow> failure r)"
    using mutate_keeps_failure [of a mu ce sg] by blast
  have 5: "failure a \<and> \<not> is_shift mu \<longrightarrow> (\<exists>r. mutate False sg mu a = Some r)"
    using mutate_returns [of a mu sg] by blast
  have 6: "failure a \<and> bits < LENGTH('a) \<longrightarrow>
      (\<exists>r. mutate ce sg (Shl_assign bits) a = Some r \<and> failure r)
      \<and> (\<exists>r. mutate ce sg (Shr_assign bits) a = Some r \<and> failure r)"
    using shift_closed [of a bits] by simp
  have 7: "mutate ce sg (Assign_T v) a = Some (assign_T a v)
      \<and> \<not> failure (assign_T a v) \<and> get (assign_T a v) = v"
    by (simp add: assign_T_def failure_def get_def)
  from 1 2 3 4 5 6 7 show ?thesis
    by (intro conjI) blast+
qed

theorem poison_is_sticky_witness:
  "failure (safe_integral_T_err (42 :: 32 word) True)
   \<and> \<not> is_assign_T (Xor_assign (safe_integral_T (7 :: 32 word)))
   \<and> (\<exists>r. inc False False (safe_integral_T_err (42 :: 32 word) True) = Some r \<and> failure r)
   \<and> (\<exists>r. binary_op_Ts Mul False False 3 (safe_integral_T_err (42 :: 32 word) True) = Some r
          \<and> failure r)
   \<and> (\<exists>r. mutate False False (Xor_assign (safe_integral_T 7))
            (safe_integral_T_err (42 :: 32 word) True) = Some r \<and> failure r)
   \<and> (\<exists>r. mutate False False (Shl_assign 4) (safe_integral_T_err (42 :: 32 word) True) = Some r
          \<and> failure r)
   \<and> mutate False False (Assign_T 3) (safe_integral_T_err (42 :: 32 word) True)
        = Some \<lparr>m_val = 3, m_error = False\<rparr>"
proof -
  let ?p = "safe_integral_T_err (42 :: 32 word) True"
  have f: "failure ?p"
    by (simp add: failure_def safe_integral_T_err_def)
  have x: "mutate False False (Xor_assign (safe_integral_T 7)) ?p
      = Some (xor_assign ?p (safe_integral_T 7))"
    by simp
  have n: "(4::nat) < LENGTH(32)"
    by simp
  have a: "assign_T ?p 3 = \<lparr>m_val = 3, m_error = False\<rparr>"
    by (simp add: assign_T_def safe_integral_T_err_def)
  show ?thesis
    using poison_is_sticky [where a = ?p and b = ?p and op = Mul and sg = False and v = 3
        and ce = False and mu = "Xor_assign (safe_integral_T 7)" and bits = 4] f x n a
    by auto
qed

end
